theory Spec2Isabelle
  imports
    Complex_Main
    "HOL-Library.Char_ord"
    "HOL-Library.List_Lexorder"
    "HOL-Library.Product_Lexorder"
begin

section \<open>The variable algebra and selection engine of \<^verbatim>\<open>utils/datavar.py\<close>\<close>

text \<open>
  The module works on pandas tables. A table is modelled by its labels and its cells:
  the row labels (scenario names) in their order, the column labels (year tokens) in their
  order, and one cell for every row and column label. A cell is \<open>None\<close> where pandas holds
  a missing value (NaN) and \<open>Some x\<close> otherwise; the type \<open>'v\<close> stands for the numbers
  that are not NaN. A row carries its cells as a function of the column label, and only
  the cells at labels listed in the columns belong to the table.
  Every table of the module is indexed by the column \<^verbatim>\<open>Name\<close>.
\<close>

type_synonym name = string
type_synonym year = string

datatype error =
    Exception_both_None
  | Exception_both_defined
  | Exception_years "year list" "year list"
  | KeyError_category string
  | KeyError_IP string
  | KeyError_SSP string
  | KeyError_columns
  | KeyError_loc name
  | ValueError_float
  | ValueError_shape
  | NotImplementedError_CurPol
  | NotImplementedError_NDC

text \<open>
  \<^verbatim>\<open>_values\<close> is a \<^verbatim>\<open>pd.Series\<close> (its name tag, which may be \<^verbatim>\<open>None\<close>, and one
  cell per row) or a \<^verbatim>\<open>pd.DataFrame\<close> (its columns and one row of cells per row label).
\<close>

datatype 'v "values" =
    Series "string option" "(name \<times> 'v option) list"
  | DataFrame "year list" "(name \<times> (year \<Rightarrow> 'v option)) list"

text \<open>\<^verbatim>\<open>_year\<close> is a single token (a \<^verbatim>\<open>str\<close>) or a list of tokens.\<close>

datatype year_mode = Single year | Multiple "year list"

text \<open>An argument that \<^verbatim>\<open>_to_list\<close> receives: one value, or a tuple or list of values.\<close>

datatype 'a arg = One 'a | Many "'a list"

text \<open>
  The raw dataset: one row per (Name, Variable, Unit) with a cell per year column.
  The scenario universe: one row of metadata per scenario name.
\<close>

record 'v data_row =
  row_Name :: name
  row_Variable :: string
  row_Unit :: string
  row_cells :: "year \<Rightarrow> 'v option"

record 'v dataset =
  year_columns :: "year list"
  data_rows :: "'v data_row list"

record scenario_meta =
  Category :: "string option"
  IP :: "string option"
  SSP :: "string option"
  Vetted :: bool

type_synonym universe = "(name \<times> scenario_meta) list"

text \<open>
  An entry of \<^verbatim>\<open>IP_SCENARIOS\<close> or \<^verbatim>\<open>SSP_SCENARIOS\<close>: its \<^verbatim>\<open>name\<close> and its
  canonical \<^verbatim>\<open>scenario\<close>.
\<close>

record pathway =
  pathway_name :: string
  scenario :: name

datatype binop = Add | Sub | Mul | TrueDiv

text \<open>
  What the module imports from \<^verbatim>\<open>utils/constants.py\<close> and \<^verbatim>\<open>utils/data.py\<close>, and what
  Python supplies, is a parameter of the model:
  the constants \<^verbatim>\<open>YEARS\<close>, \<^verbatim>\<open>IP_SCENARIOS\<close> and \<^verbatim>\<open>SSP_SCENARIOS\<close> (dictionaries, as
  association lists in key order);
  \<^verbatim>\<open>float(y)\<close> on a year token (\<open>None\<close> where it raises \<^verbatim>\<open>ValueError\<close>);
  \<^verbatim>\<open>get_interp(data, None, [variable], f)[0].T.iloc[:, 0]\<close>, the interpolated value
  of each scenario (missing where the service has none for it);
  and the floating-point operation on two numbers that are not NaN (\<open>None\<close> where its
  result is NaN).
\<close>

record ('v, 'f) env =
  YEARS :: "year list"
  IP_SCENARIOS :: "(string \<times> pathway) list"
  SSP_SCENARIOS :: "(string \<times> pathway) list"
  py_float :: "string \<Rightarrow> 'f option"
  get_interp :: "'v dataset \<Rightarrow> string \<Rightarrow> 'f \<Rightarrow> name \<Rightarrow> 'v option"
  float_op :: "binop \<Rightarrow> 'v \<Rightarrow> 'v \<Rightarrow> 'v option"

record 'v Var =
  v_data :: "'v dataset"
  v_scenarios :: universe
  v_vetted_scenarios :: universe
  v_variable :: "string option"
  v_year :: year_mode
  v_values :: "'v values"
  v_default :: "'v option"

subsection \<open>\<^verbatim>\<open>_to_list\<close>\<close>

text \<open>
  With \<^verbatim>\<open>to_str=True\<close> every element goes through \<^verbatim>\<open>str\<close>; year tokens are
  modelled as the strings that \<^verbatim>\<open>str\<close> returns.
\<close>

fun to_list :: "'a arg \<Rightarrow> 'a list" where
  "to_list (Many vs) = vs"
| "to_list (One v) = [v]"

subsection \<open>\<^verbatim>\<open>Var.__init__\<close>\<close>

fun fill :: "'v \<Rightarrow> 'v option \<Rightarrow> 'v option" where
  "fill d None = Some d"
| "fill d (Some x) = Some x"

fun fillna :: "'v \<Rightarrow> 'v values \<Rightarrow> 'v values" where
  "fillna d (Series nm rows) = Series nm (map (\<lambda>(n, c). (n, fill d c)) rows)"
| "fillna d (DataFrame cols rows) =
     DataFrame cols (map (\<lambda>(n, c). (n, \<lambda>y. fill d (c y))) rows)"

text \<open>\<^verbatim>\<open>self._values[y] = column\<close>: the column is aligned to the row labels.\<close>

definition setitem ::
  "(name \<times> (year \<Rightarrow> 'v option)) list \<Rightarrow> year \<Rightarrow> (name \<Rightarrow> 'v option) \<Rightarrow>
   (name \<times> (year \<Rightarrow> 'v option)) list" where
  "setitem rows y col = map (\<lambda>(n, c). (n, c(y := col n))) rows"

text \<open>The loop over \<^verbatim>\<open>interp_years\<close>.\<close>

fun interpolate ::
  "('v, 'f) env \<Rightarrow> 'v dataset \<Rightarrow> string \<Rightarrow> (name \<times> (year \<Rightarrow> 'v option)) list \<Rightarrow>
   year list \<Rightarrow> error + (name \<times> (year \<Rightarrow> 'v option)) list" where
  "interpolate env data variable rows [] = Inr rows"
| "interpolate env data variable rows (y # ys) =
     (case py_float env y of
        None \<Rightarrow> Inl ValueError_float
      | Some f \<Rightarrow>
          interpolate env data variable
            (setitem rows y (get_interp env data variable f)) ys)"

text \<open>
  \<^verbatim>\<open>data[data["Variable"] == variable].set_index("Name")[existing_years]\<close>; selecting a
  column that the dataset does not have raises \<^verbatim>\<open>KeyError\<close>.
\<close>

definition existing_values ::
  "'v dataset \<Rightarrow> string \<Rightarrow> year list \<Rightarrow> error + (name \<times> (year \<Rightarrow> 'v option)) list" where
  "existing_values data variable existing_years =
     (if \<not> list_all (\<lambda>y. y \<in> set (year_columns data)) existing_years
      then Inl KeyError_columns
      else Inr (map (\<lambda>r. (row_Name r,
                          \<lambda>y. if y \<in> set existing_years then row_cells r y else None))
                  (filter (\<lambda>r. row_Variable r = variable) (data_rows data))))"

text \<open>\<^verbatim>\<open>self._values[self._year]\<close>: one column as a Series, or a list of columns.\<close>

fun getitem :: "year_mode \<Rightarrow> (name \<times> (year \<Rightarrow> 'v option)) list \<Rightarrow> 'v values" where
  "getitem (Single y) rows = Series (Some y) (map (\<lambda>(n, c). (n, c y)) rows)"
| "getitem (Multiple ys) rows = DataFrame ys rows"

text \<open>
  The branch \<^verbatim>\<open>if variable is not None\<close>. The two sets of years are listed in one fixed
  order; Python's order of a set is arbitrary, and nothing below depends on it.
\<close>

definition values_of_variable ::
  "('v, 'f) env \<Rightarrow> 'v dataset \<Rightarrow> string \<Rightarrow> string arg option \<Rightarrow> error + (year_mode \<times> 'v values)" where
  "values_of_variable env data variable year =
     (let year0 = (case year of None \<Rightarrow> Many (YEARS env) | Some y \<Rightarrow> y);
          year1 = to_list year0;
          self_year = (case year0 of One y \<Rightarrow> Single y | Many ys \<Rightarrow> Multiple ys);
          existing_years = remdups (filter (\<lambda>y. y \<in> set (YEARS env)) year1);
          interp_years = remdups (filter (\<lambda>y. y \<notin> set (YEARS env)) year1)
      in case existing_values data variable existing_years of
           Inl e \<Rightarrow> Inl e
         | Inr rows \<Rightarrow>
             (case interpolate env data variable rows interp_years of
                Inl e \<Rightarrow> Inl e
              | Inr rows' \<Rightarrow> Inr (self_year, getitem self_year rows')))"

text \<open>The branch \<^verbatim>\<open>if values is not None\<close>; \<^verbatim>\<open>str(None)\<close> is \<^verbatim>\<open>"None"\<close>.\<close>

fun year_of_values :: "'v values \<Rightarrow> year_mode" where
  "year_of_values (Series nm rows) = Single (case nm of None \<Rightarrow> ''None'' | Some s \<Rightarrow> s)"
| "year_of_values (DataFrame cols rows) = Multiple cols"

definition apply_default :: "'v option \<Rightarrow> 'v values \<Rightarrow> 'v values" where
  "apply_default dflt vals = (case dflt of None \<Rightarrow> vals | Some d \<Rightarrow> fillna d vals)"

definition Var_init ::
  "('v, 'f) env \<Rightarrow> 'v dataset \<Rightarrow> universe \<Rightarrow> universe \<Rightarrow> string option \<Rightarrow>
   string arg option \<Rightarrow> 'v values option \<Rightarrow> 'v option \<Rightarrow> error + 'v Var" where
  "Var_init env data scenarios vetted_scenarios variable year vals dflt =
     (if variable = None \<and> vals = None then Inl Exception_both_None
      else if variable \<noteq> None \<and> vals \<noteq> None then Inl Exception_both_defined
      else
        (case variable of
           Some var \<Rightarrow>
             (case values_of_variable env data var year of
                Inl e \<Rightarrow> Inl e
              | Inr (y, vs) \<Rightarrow>
                  Inr \<lparr>v_data = data, v_scenarios = scenarios,
                       v_vetted_scenarios = vetted_scenarios, v_variable = Some var,
                       v_year = y, v_values = apply_default dflt vs,
                       v_default = dflt\<rparr>)
         | None \<Rightarrow>
             (case vals of
                Some vs \<Rightarrow>
                  Inr \<lparr>v_data = data, v_scenarios = scenarios,
                       v_vetted_scenarios = vetted_scenarios, v_variable = None,
                       v_year = year_of_values vs, v_values = apply_default dflt vs,
                       v_default = dflt\<rparr>
              | None \<Rightarrow> Inl Exception_both_None)))"

subsection \<open>\<^verbatim>\<open>DataVar\<close>\<close>

record 'v DataVar =
  dv_data :: "'v dataset"
  dv_scenarios :: universe
  dv_vetted_scenarios :: universe

definition DataVar_init :: "'v dataset \<Rightarrow> universe \<Rightarrow> universe \<Rightarrow> 'v DataVar" where
  "DataVar_init data scenarios vetted_scenarios =
     \<lparr>dv_data = data, dv_scenarios = scenarios, dv_vetted_scenarios = vetted_scenarios\<rparr>"

text \<open>\<^verbatim>\<open>DataVar.__call__\<close>; the keyword arguments it forwards are \<^verbatim>\<open>values\<close> and \<^verbatim>\<open>default\<close>.\<close>

definition DataVar_call ::
  "('v, 'f) env \<Rightarrow> 'v DataVar \<Rightarrow> string \<Rightarrow> string arg option \<Rightarrow> 'v values option \<Rightarrow>
   'v option \<Rightarrow> error + 'v Var" where
  "DataVar_call env self variable year vals dflt =
     Var_init env (dv_data self) (dv_scenarios self) (dv_vetted_scenarios self)
       (Some variable) year vals dflt"

subsection \<open>\<^verbatim>\<open>Var.select\<close>\<close>

definition all_categories :: "string list" where
  "all_categories = [''C1'', ''C2'', ''C3'', ''C4'', ''C5'', ''C6'', ''C7'', ''C8'']"

text \<open>\<^verbatim>\<open>selection["Category"].isin(category)\<close>: a missing category is in no list.\<close>

definition category_isin :: "string list \<Rightarrow> scenario_meta \<Rightarrow> bool" where
  "category_isin cs m = (case Category m of None \<Rightarrow> False | Some c \<Rightarrow> c \<in> set cs)"

text \<open>
  The filters thread two variables, \<^verbatim>\<open>selection\<close> and \<^verbatim>\<open>extra_columns\<close>. Each filter
  raises at the first requested value, in the order given, that its enumeration lacks.
\<close>

definition requested :: "string list \<Rightarrow> string arg \<Rightarrow> string list" where
  "requested all_values a = to_list (if a = One ''all'' then Many all_values else a)"

definition select_category ::
  "string arg option \<Rightarrow> universe \<times> string list \<Rightarrow> error + universe \<times> string list" where
  "select_category category st =
     (case category of
        None \<Rightarrow> Inr st
      | Some c \<Rightarrow>
          (let cs = requested all_categories c in
           case find (\<lambda>c. c \<notin> set all_categories) cs of
             Some bad \<Rightarrow> Inl (KeyError_category bad)
           | None \<Rightarrow>
               Inr (filter (\<lambda>(n, m). category_isin cs m) (fst st),
                    snd st @ [''Category''])))"

text \<open>
  \<^verbatim>\<open>[TABLE[v].scenario for v in vs]\<close>; it is evaluated after every \<open>v\<close> was found to be
  a key of the table.
\<close>

definition canonical_scenarios :: "(string \<times> pathway) list \<Rightarrow> string list \<Rightarrow> name list" where
  "canonical_scenarios table vs =
     concat (map (\<lambda>v. case map_of table v of None \<Rightarrow> [] | Some p \<Rightarrow> [scenario p]) vs)"

definition select_ip ::
  "('v, 'f) env \<Rightarrow> string arg option \<Rightarrow> universe \<times> string list \<Rightarrow>
   error + universe \<times> string list" where
  "select_ip env ip st =
     (case ip of
        None \<Rightarrow> Inr st
      | Some i \<Rightarrow>
          (let vs = requested (map fst (IP_SCENARIOS env)) i in
           case find (\<lambda>v. map_of (IP_SCENARIOS env) v = None) vs of
             Some bad \<Rightarrow> Inl (KeyError_IP bad)
           | None \<Rightarrow>
               Inr (filter (\<lambda>(n, m). n \<in> set (canonical_scenarios (IP_SCENARIOS env) vs))
                      (fst st),
                    snd st @ [''IP''])))"

text \<open>
  \<^verbatim>\<open>self.scenarios.loc[label]\<close>: the rows of the full universe with that label;
  \<^verbatim>\<open>KeyError\<close> when there is none.
\<close>

definition loc :: "universe \<Rightarrow> name \<Rightarrow> error + universe" where
  "loc scenarios n =
     (case filter (\<lambda>(n', m). n' = n) scenarios of
        [] \<Rightarrow> Inl (KeyError_loc n)
      | r # rs \<Rightarrow> Inr (r # rs))"

text \<open>
  The loop that appends the canonical scenarios which the selection lacks, with
  \<^verbatim>\<open>DataFrame.append\<close> as pandas has it before version 2.
\<close>

fun add_unvetted ::
  "universe \<Rightarrow> (string \<times> pathway) list \<Rightarrow> universe \<Rightarrow> string list \<Rightarrow> error + universe" where
  "add_unvetted scenarios table selection [] = Inr selection"
| "add_unvetted scenarios table selection (v # vs) =
     (case map_of table v of
        None \<Rightarrow> add_unvetted scenarios table selection vs
      | Some p \<Rightarrow>
          if scenario p \<in> set (map fst selection)
          then add_unvetted scenarios table selection vs
          else (case loc scenarios (scenario p) of
                  Inl e \<Rightarrow> Inl e
                | Inr rs \<Rightarrow> add_unvetted scenarios table (selection @ rs) vs))"

definition select_ssp ::
  "('v, 'f) env \<Rightarrow> universe \<Rightarrow> string arg option \<Rightarrow> universe \<times> string list \<Rightarrow>
   error + universe \<times> string list" where
  "select_ssp env scenarios ssp st =
     (case ssp of
        None \<Rightarrow> Inr st
      | Some s \<Rightarrow>
          (let vs = requested (map fst (SSP_SCENARIOS env)) s in
           case find (\<lambda>v. map_of (SSP_SCENARIOS env) v = None) vs of
             Some bad \<Rightarrow> Inl (KeyError_SSP bad)
           | None \<Rightarrow>
               (case add_unvetted scenarios (SSP_SCENARIOS env)
                       (filter (\<lambda>(n, m). n \<in> set (canonical_scenarios (SSP_SCENARIOS env) vs))
                          (fst st)) vs of
                  Inl e \<Rightarrow> Inl e
                | Inr selection \<Rightarrow> Inr (selection, snd st @ [''SSP'']))))"

text \<open>\<^verbatim>\<open>selection[extra_columns]\<close>, one row of it.\<close>

definition meta_column :: "string \<Rightarrow> scenario_meta \<Rightarrow> string option" where
  "meta_column col m =
     (if col = ''Category'' then Category m
      else if col = ''IP'' then IP m
      else if col = ''SSP'' then SSP m
      else None)"

text \<open>
  \<^verbatim>\<open>merge(..., left_index=True, right_index=True, how="left")\<close> and \<^verbatim>\<open>reset_index()\<close>:
  every row of the values, in order, with the metadata of every row of the selection that
  has its label, or with missing metadata when there is none. A merged row is the
  metadata, the name and the cells.
\<close>

definition merge_left ::
  "(name \<times> 'c) list \<Rightarrow> universe \<Rightarrow> string list \<Rightarrow> (string option list \<times> name \<times> 'c) list" where
  "merge_left rows selection extra_columns =
     concat (map (\<lambda>(n, c).
       case filter (\<lambda>(n', m). n' = n) selection of
         [] \<Rightarrow> [(map (\<lambda>col. None) extra_columns, n, c)]
       | ms \<Rightarrow> map (\<lambda>(n', m). (map (\<lambda>col. meta_column col m) extra_columns, n, c)) ms) rows)"

text \<open>
  \<^verbatim>\<open>sort_values(extra_columns)\<close>: ascending by the metadata, missing values last;
  no sort when there is no column to sort by. Rows with equal keys keep their order
  here; for a single column pandas does not promise it.
\<close>

fun sort_token :: "string option \<Rightarrow> bool \<times> string" where
  "sort_token None = (True, [])"
| "sort_token (Some s) = (False, s)"

definition sort_values ::
  "string list \<Rightarrow> (string option list \<times> name \<times> 'c) list \<Rightarrow> (string option list \<times> name \<times> 'c) list" where
  "sort_values extra_columns rows =
     (if extra_columns = [] then rows
      else sort_key (\<lambda>(k, n, c). map sort_token k) rows)"

text \<open>
  What \<^verbatim>\<open>select\<close> returns: a Series (its name, the names of its index levels, its rows)
  or a DataFrame (its columns, the names of its index levels, its rows).
\<close>

datatype 'v selected =
    SelectedSeries string "string list" "(string option list \<times> name \<times> 'v option) list"
  | SelectedFrame "year list" "string list"
      "(string option list \<times> name \<times> (year \<Rightarrow> 'v option)) list"

text \<open>\<^verbatim>\<open>Series.to_frame("value")\<close>.\<close>

definition to_frame ::
  "string \<Rightarrow> (name \<times> 'v option) list \<Rightarrow> (name \<times> (year \<Rightarrow> 'v option)) list" where
  "to_frame col rows = map (\<lambda>(n, c). (n, \<lambda>y. if y = col then c else None)) rows"

definition isin_index :: "universe \<Rightarrow> (name \<times> 'c) list \<Rightarrow> (name \<times> 'c) list" where
  "isin_index selection rows = filter (\<lambda>(n, c). n \<in> set (map fst selection)) rows"

text \<open>The three filters, from the copy of the universe to the last append.\<close>

definition filter_scenarios ::
  "('v, 'f) env \<Rightarrow> 'v Var \<Rightarrow> string arg option \<Rightarrow> string arg option \<Rightarrow> string arg option \<Rightarrow>
   bool \<Rightarrow> error + universe \<times> string list" where
  "filter_scenarios env self category ip ssp vetted =
     (let selection = (if vetted then v_vetted_scenarios self else v_scenarios self) in
      case select_category category (selection, []) of
        Inl e \<Rightarrow> Inl e
      | Inr st1 \<Rightarrow>
          (case select_ip env ip st1 of
             Inl e \<Rightarrow> Inl e
           | Inr st2 \<Rightarrow> select_ssp env (v_scenarios self) ssp st2))"

text \<open>
  The values of the selected scenarios, merged with the extra columns, sorted and
  indexed; a Series goes through a one-column frame and comes back as a Series.
\<close>

definition subset_values :: "'v values \<Rightarrow> universe \<Rightarrow> string list \<Rightarrow> 'v selected" where
  "subset_values vals selection extra_columns =
     (case vals of
        Series nm rows \<Rightarrow>
          SelectedSeries ''value'' (extra_columns @ [''Name''])
            (map (\<lambda>(k, n, c). (k, n, c ''value''))
               (sort_values extra_columns
                  (merge_left (to_frame ''value'' (isin_index selection rows))
                     selection extra_columns)))
      | DataFrame cols rows \<Rightarrow>
          SelectedFrame cols (extra_columns @ [''Name''])
            (sort_values extra_columns
               (merge_left (isin_index selection rows) selection extra_columns)))"

definition select ::
  "('v, 'f) env \<Rightarrow> 'v Var \<Rightarrow> string arg option \<Rightarrow> string arg option \<Rightarrow> string arg option \<Rightarrow>
   bool option \<Rightarrow> bool option \<Rightarrow> bool \<Rightarrow> error + 'v selected" where
  "select env self category ip ssp curpol ndc vetted =
     (case filter_scenarios env self category ip ssp vetted of
        Inl e \<Rightarrow> Inl e
      | Inr (selection, extra_columns) \<Rightarrow>
          if curpol \<noteq> None then Inl NotImplementedError_CurPol
          else if ndc \<noteq> None then Inl NotImplementedError_NDC
          else Inr (subset_values (v_values self) selection extra_columns))"

subsection \<open>Arithmetic\<close>

text \<open>
  pandas aligns the operands of an operator on their labels. The model covers tables
  whose row labels are distinct and whose column labels are distinct: for both axes the
  labels of the result are the labels of either operand (as they are when both operands
  have the same labels, sorted otherwise), and a cell that an operand lacks is missing.
\<close>

definition cell_op :: "('v \<Rightarrow> 'v \<Rightarrow> 'v option) \<Rightarrow> 'v option \<Rightarrow> 'v option \<Rightarrow> 'v option" where
  "cell_op f a b =
     (case a of None \<Rightarrow> None | Some x \<Rightarrow> (case b of None \<Rightarrow> None | Some y \<Rightarrow> f x y))"

definition union_labels :: "string list \<Rightarrow> string list \<Rightarrow> string list" where
  "union_labels xs ys = (if xs = ys then xs else sort (remdups (xs @ ys)))"

definition frame_at ::
  "year list \<Rightarrow> (name \<times> (year \<Rightarrow> 'v option)) list \<Rightarrow> name \<Rightarrow> year \<Rightarrow> 'v option" where
  "frame_at cols rows n y =
     (if y \<in> set cols then (case map_of rows n of None \<Rightarrow> None | Some c \<Rightarrow> c y) else None)"

definition series_at :: "(name \<times> 'v option) list \<Rightarrow> name \<Rightarrow> 'v option" where
  "series_at rows n = (case map_of rows n of None \<Rightarrow> None | Some c \<Rightarrow> c)"

text \<open>
  An operator between two tables. Between a DataFrame and a Series pandas matches the
  labels of the Series to the columns of the DataFrame.
\<close>

fun values_op :: "('v \<Rightarrow> 'v \<Rightarrow> 'v option) \<Rightarrow> 'v values \<Rightarrow> 'v values \<Rightarrow> 'v values" where
  "values_op f (DataFrame c1 r1) (DataFrame c2 r2) =
     DataFrame (union_labels c1 c2)
       (map (\<lambda>n. (n, \<lambda>y. cell_op f (frame_at c1 r1 n y) (frame_at c2 r2 n y)))
          (union_labels (map fst r1) (map fst r2)))"
| "values_op f (Series n1 r1) (Series n2 r2) =
     Series (if n1 = n2 then n1 else None)
       (map (\<lambda>n. (n, cell_op f (series_at r1 n) (series_at r2 n)))
          (union_labels (map fst r1) (map fst r2)))"
| "values_op f (DataFrame c1 r1) (Series n2 r2) =
     DataFrame (union_labels c1 (map fst r2))
       (map (\<lambda>(n, c). (n, \<lambda>y. cell_op f (if y \<in> set c1 then c y else None) (series_at r2 y))) r1)"
| "values_op f (Series n1 r1) (DataFrame c2 r2) =
     DataFrame (union_labels (map fst r1) c2)
       (map (\<lambda>(n, c). (n, \<lambda>y. cell_op f (series_at r1 y) (if y \<in> set c2 then c y else None))) r2)"

text \<open>An operator between a table and a plain number.\<close>

fun values_number_op :: "('v \<Rightarrow> 'v \<Rightarrow> 'v option) \<Rightarrow> 'v values \<Rightarrow> 'v \<Rightarrow> 'v values" where
  "values_number_op f (Series nm rows) x =
     Series nm (map (\<lambda>(n, c). (n, cell_op f c (Some x))) rows)"
| "values_number_op f (DataFrame cols rows) x =
     DataFrame cols (map (\<lambda>(n, c). (n, \<lambda>y. cell_op f (c y) (Some x))) rows)"

text \<open>
  \<^verbatim>\<open>pd.DataFrame({year: values for year in years})\<close>: a dictionary keeps one entry per
  key; the empty dictionary gives the empty table; a value that is itself a DataFrame
  is refused.
\<close>

definition replicate_years :: "year list \<Rightarrow> 'v values \<Rightarrow> error + 'v values" where
  "replicate_years years vals =
     (if years = [] then Inr (DataFrame [] [])
      else (case vals of
              Series nm rows \<Rightarrow> Inr (DataFrame (remdups years) (map (\<lambda>(n, c). (n, \<lambda>y. c)) rows))
            | DataFrame cols rows \<Rightarrow> Inl ValueError_shape))"

datatype 'v operand = Number 'v | Variable "'v Var"

datatype 'v harmonised = Num 'v | Vals "'v values"

definition check_and_harmonise_inputs ::
  "'v Var \<Rightarrow> 'v operand \<Rightarrow> error + 'v values \<times> 'v harmonised" where
  "check_and_harmonise_inputs self other =
     (case other of
        Number x \<Rightarrow> Inr (v_values self, Num x)
      | Variable other_var \<Rightarrow>
          (case v_year self of
             Multiple y1 \<Rightarrow>
               (case v_year other_var of
                  Multiple y2 \<Rightarrow>
                    if set y1 \<noteq> set y2 then Inl (Exception_years y1 y2)
                    else Inr (v_values self, Vals (v_values other_var))
                | Single y2 \<Rightarrow>
                    (case replicate_years y1 (v_values other_var) of
                       Inl e \<Rightarrow> Inl e
                     | Inr harmonised_values2 \<Rightarrow> Inr (v_values self, Vals harmonised_values2)))
           | Single y1 \<Rightarrow>
               (case v_year other_var of
                  Multiple y2 \<Rightarrow>
                    (case replicate_years y2 (v_values self) of
                       Inl e \<Rightarrow> Inl e
                     | Inr harmonised_values1 \<Rightarrow>
                         Inr (harmonised_values1, Vals (v_values other_var)))
                | Single y2 \<Rightarrow> Inr (v_values self, Vals (v_values other_var)))))"

text \<open>
  The body that \<^verbatim>\<open>__add__\<close>, \<^verbatim>\<open>__sub__\<close>, \<^verbatim>\<open>__mul__\<close> and \<^verbatim>\<open>__truediv__\<close> share:
  harmonise, operate, and wrap the result as a new \<^verbatim>\<open>Var\<close> with the default of
  \<^verbatim>\<open>self\<close>.
\<close>

definition arithmetic ::
  "('v, 'f) env \<Rightarrow> binop \<Rightarrow> 'v Var \<Rightarrow> 'v operand \<Rightarrow> error + 'v Var" where
  "arithmetic env b self other =
     (case check_and_harmonise_inputs self other of
        Inl e \<Rightarrow> Inl e
      | Inr (self_values, other_values) \<Rightarrow>
          Var_init env (v_data self) (v_scenarios self) (v_vetted_scenarios self) None None
            (Some (case other_values of
                     Num x \<Rightarrow> values_number_op (float_op env b) self_values x
                   | Vals w \<Rightarrow> values_op (float_op env b) self_values w))
            (v_default self))"

definition Var_add :: "('v, 'f) env \<Rightarrow> 'v Var \<Rightarrow> 'v operand \<Rightarrow> error + 'v Var" where
  "Var_add env self other = arithmetic env Add self other"

definition Var_sub :: "('v, 'f) env \<Rightarrow> 'v Var \<Rightarrow> 'v operand \<Rightarrow> error + 'v Var" where
  "Var_sub env self other = arithmetic env Sub self other"

definition Var_mul :: "('v, 'f) env \<Rightarrow> 'v Var \<Rightarrow> 'v operand \<Rightarrow> error + 'v Var" where
  "Var_mul env self other = arithmetic env Mul self other"

definition Var_truediv :: "('v, 'f) env \<Rightarrow> 'v Var \<Rightarrow> 'v operand \<Rightarrow> error + 'v Var" where
  "Var_truediv env self other = arithmetic env TrueDiv self other"

subsection \<open>Observations on tables\<close>

fun row_labels :: "'v values \<Rightarrow> name list" where
  "row_labels (Series nm rows) = map fst rows"
| "row_labels (DataFrame cols rows) = map fst rows"

text \<open>The cell of a scenario at a year; a Series has one cell per scenario.\<close>

fun cell :: "'v values \<Rightarrow> name \<Rightarrow> year \<Rightarrow> 'v option" where
  "cell (Series nm rows) n y = series_at rows n"
| "cell (DataFrame cols rows) n y = frame_at cols rows n y"

text \<open>\<^verbatim>\<open>not values.isna().any()\<close>, over every column.\<close>

fun no_missing :: "'v values \<Rightarrow> bool" where
  "no_missing (Series nm rows) = list_all (\<lambda>(n, c). c \<noteq> None) rows"
| "no_missing (DataFrame cols rows) =
     list_all (\<lambda>(n, c). list_all (\<lambda>y. c y \<noteq> None) cols) rows"

fun unique_labels :: "'v values \<Rightarrow> bool" where
  "unique_labels (Series nm rows) = distinct (map fst rows)"
| "unique_labels (DataFrame cols rows) = (distinct cols \<and> distinct (map fst rows))"

text \<open>What the fill at the end of the constructor makes of one cell.\<close>

definition default_cell :: "'v option \<Rightarrow> 'v option \<Rightarrow> 'v option" where
  "default_cell dflt c = (case dflt of None \<Rightarrow> c | Some d \<Rightarrow> fill d c)"

text \<open>The constructor leaves \<^verbatim>\<open>_year\<close> and \<^verbatim>\<open>_values\<close> in agreement.\<close>

definition consistent :: "'v Var \<Rightarrow> bool" where
  "consistent v = (v_year v = year_of_values (v_values v))"

fun selected_index :: "'v selected \<Rightarrow> (string option list \<times> name) list" where
  "selected_index (SelectedSeries nm levels rows) = map (\<lambda>(k, n, c). (k, n)) rows"
| "selected_index (SelectedFrame cols levels rows) = map (\<lambda>(k, n, c). (k, n)) rows"

definition selected_names :: "'v selected \<Rightarrow> name list" where
  "selected_names r = map snd (selected_index r)"

subsection \<open>An example dataset\<close>

text \<open>
  Two scenarios, of which only the first is vetted; the second is the canonical scenario
  of SSP1-19. The numbers are exact reals, with the four operations on them; a division
  by zero is given a missing result here.
\<close>

definition ex_op :: "binop \<Rightarrow> real \<Rightarrow> real \<Rightarrow> real option" where
  "ex_op b x y =
     (case b of
        Add \<Rightarrow> Some (x + y)
      | Sub \<Rightarrow> Some (x - y)
      | Mul \<Rightarrow> Some (x * y)
      | TrueDiv \<Rightarrow> if y = 0 then None else Some (x / y))"

definition ex_data :: "real dataset" where
  "ex_data = \<lparr>year_columns = [''2020'', ''2030''],
     data_rows = [
       \<lparr>row_Name = ''M1 S1'', row_Variable = ''Energy Supply'', row_Unit = ''Gt CO2/yr'',
        row_cells = (\<lambda>y. if y = ''2020'' then Some 1 else None)\<rparr>,
       \<lparr>row_Name = ''M1 S2'', row_Variable = ''Energy Supply'', row_Unit = ''Gt CO2/yr'',
        row_cells = (\<lambda>y. if y = ''2020'' then Some 2 else if y = ''2030'' then Some 2.5 else None)\<rparr>,
       \<lparr>row_Name = ''M1 S1'', row_Variable = ''Transport'', row_Unit = ''Gt CO2/yr'',
        row_cells = (\<lambda>y. if y = ''2020'' then Some 4 else if y = ''2030'' then Some 5 else None)\<rparr>]\<rparr>"

definition ex_scenarios :: universe where
  "ex_scenarios =
     [(''M1 S1'', \<lparr>Category = Some ''C1'', IP = Some ''CurPol'', SSP = None, Vetted = True\<rparr>),
      (''M1 S2'', \<lparr>Category = Some ''C3'', IP = None, SSP = Some ''SSP1-19'', Vetted = False\<rparr>)]"

definition ex_vetted_scenarios :: universe where
  "ex_vetted_scenarios =
     [(''M1 S1'', \<lparr>Category = Some ''C1'', IP = Some ''CurPol'', SSP = None, Vetted = True\<rparr>)]"

definition ex_env :: "(real, real) env" where
  "ex_env = \<lparr>YEARS = [''2020'', ''2030''],
     IP_SCENARIOS = [(''CurPol'', \<lparr>pathway_name = ''CurPol'', scenario = ''M1 S1''\<rparr>)],
     SSP_SCENARIOS = [(''SSP1-19'', \<lparr>pathway_name = ''SSP1-19'', scenario = ''M1 S2''\<rparr>)],
     py_float = (\<lambda>s. if s = ''2025'' then Some 2025 else None),
     get_interp = (\<lambda>d v f n. if n = ''M1 S2'' then Some 2.25 else None),
     float_op = ex_op\<rparr>"

text \<open>
  The variable "Energy Supply" over both known years, without a default, as the
  constructor returns it.
\<close>

definition ex_var :: "real Var" where
  "ex_var = \<lparr>v_data = ex_data, v_scenarios = ex_scenarios,
     v_vetted_scenarios = ex_vetted_scenarios, v_variable = Some ''Energy Supply'',
     v_year = Multiple [''2020'', ''2030''],
     v_values = DataFrame [''2020'', ''2030'']
       [(''M1 S1'', \<lambda>y. if y = ''2020'' then Some 1 else None),
        (''M1 S2'', \<lambda>y. if y = ''2020'' then Some 2 else if y = ''2030'' then Some 2.5 else None)],
     v_default = None\<rparr>"

text \<open>The index of what \<^verbatim>\<open>select\<close> returns, or its exception.\<close>

definition index_of :: "error + 'v selected \<Rightarrow> error + (string option list \<times> name) list" where
  "index_of x = (case x of Inl e \<Rightarrow> Inl e | Inr r \<Rightarrow> Inr (selected_index r))"

text \<open>
  The value that the service gives for a year token and a scenario: the token goes through
  \<^verbatim>\<open>float\<close>, the result is read at the scenario.
\<close>

definition interp_cell :: "('v, 'f) env \<Rightarrow> 'v dataset \<Rightarrow> string \<Rightarrow> year \<Rightarrow> name \<Rightarrow> 'v option" where
  "interp_cell env data variable y n =
     (case py_float env y of None \<Rightarrow> None | Some f \<Rightarrow> get_interp env data variable f n)"

text \<open>The cells that the dataset holds for a variable, a scenario and a year.\<close>

definition dataset_cells :: "'v dataset \<Rightarrow> string \<Rightarrow> name \<Rightarrow> year \<Rightarrow> 'v option list" where
  "dataset_cells data variable n y =
     map (\<lambda>r. row_cells r y)
       (filter (\<lambda>r. row_Variable r = variable \<and> row_Name r = n) (data_rows data))"

text \<open>A cell of the values of a constructed \<^verbatim>\<open>Var\<close>, or the exception.\<close>

definition cell_of :: "error + 'v Var \<Rightarrow> name \<Rightarrow> year \<Rightarrow> error + 'v option" where
  "cell_of x n y = (case x of Inl e \<Rightarrow> Inl e | Inr v \<Rightarrow> Inr (cell (v_values v) n y))"

text \<open>Whether a table has a column for a year; a Series is one column.\<close>

fun has_column :: "'v values \<Rightarrow> year \<Rightarrow> bool" where
  "has_column (Series nm rows) y = True"
| "has_column (DataFrame cols rows) y = (y \<in> set cols)"

text \<open>
  More variables of the example, as the constructor returns them: "Transport" with
  the years in the other order, "Transport" for one year, "Transport" with the default 0,
  and "Energy Supply" for the single year 2030.
\<close>

definition ex_transport :: "real Var" where
  "ex_transport = \<lparr>v_data = ex_data, v_scenarios = ex_scenarios,
     v_vetted_scenarios = ex_vetted_scenarios, v_variable = Some ''Transport'',
     v_year = Multiple [''2030'', ''2020''],
     v_values = DataFrame [''2030'', ''2020'']
       [(''M1 S1'', \<lambda>y. if y = ''2020'' then Some 4 else if y = ''2030'' then Some 5 else None)],
     v_default = None\<rparr>"

definition ex_transport_2020 :: "real Var" where
  "ex_transport_2020 = \<lparr>v_data = ex_data, v_scenarios = ex_scenarios,
     v_vetted_scenarios = ex_vetted_scenarios, v_variable = Some ''Transport'',
     v_year = Multiple [''2020''],
     v_values = DataFrame [''2020'']
       [(''M1 S1'', \<lambda>y. if y = ''2020'' then Some 4 else None)],
     v_default = None\<rparr>"

definition ex_transport0 :: "real Var" where
  "ex_transport0 = \<lparr>v_data = ex_data, v_scenarios = ex_scenarios,
     v_vetted_scenarios = ex_vetted_scenarios, v_variable = Some ''Transport'',
     v_year = Multiple [''2020'', ''2030''],
     v_values = DataFrame [''2020'', ''2030'']
       [(''M1 S1'', \<lambda>y. if y = ''2020'' then Some 4 else if y = ''2030'' then Some 5 else Some 0)],
     v_default = Some 0\<rparr>"

definition ex_scalar :: "real Var" where
  "ex_scalar = \<lparr>v_data = ex_data, v_scenarios = ex_scenarios,
     v_vetted_scenarios = ex_vetted_scenarios, v_variable = Some ''Energy Supply'',
     v_year = Single ''2030'',
     v_values = Series (Some ''2030'') [(''M1 S1'', None), (''M1 S2'', Some 2.5)],
     v_default = None\<rparr>"

text \<open>"Transport" over the empty list of years, and the row labels of a result.\<close>

definition ex_transport_no_years :: "real Var" where
  "ex_transport_no_years = \<lparr>v_data = ex_data, v_scenarios = ex_scenarios,
     v_vetted_scenarios = ex_vetted_scenarios, v_variable = Some ''Transport'',
     v_year = Multiple [],
     v_values = DataFrame [] [(''M1 S1'', \<lambda>y. None)],
     v_default = None\<rparr>"

definition labels_of :: "error + 'v Var \<Rightarrow> error + name list" where
  "labels_of x = (case x of Inl e \<Rightarrow> Inl e | Inr v \<Rightarrow> Inr (row_labels (v_values v)))"

section \<open>Properties\<close>

subsection \<open>Construction\<close>

lemma interpolate_error:
  "interpolate env data variable rows ys = Inl e \<Longrightarrow> e = ValueError_float"
  by (induction ys arbitrary: rows) (auto split: option.splits)

lemma values_of_variable_error:
  "values_of_variable env data variable year = Inl e \<Longrightarrow>
   e = KeyError_columns \<or> e = ValueError_float"
  by (auto simp: values_of_variable_def Let_def existing_values_def
      split: sum.splits if_splits dest: interpolate_error)

text \<open>
  C7. The constructor fails with the exception for "both \<^verbatim>\<open>None\<close>" when neither a
  variable name nor a values table is given, and with the exception for "both defined" when
  both are given, whatever the dataset, the years and the collaborators are: nothing is
  looked up before. With exactly one of the two, the constructor does not end in either
  of these exceptions.
\<close>

theorem Var_init_ambiguous_construction:
  "Var_init env data scenarios vetted_scenarios None year None dflt = Inl Exception_both_None \<and>
   Var_init env data scenarios vetted_scenarios (Some variable) year (Some vals) dflt
     = Inl Exception_both_defined \<and>
   Var_init env data scenarios vetted_scenarios (Some variable) year None dflt
     \<notin> {Inl Exception_both_None, Inl Exception_both_defined} \<and>
   Var_init env data scenarios vetted_scenarios None year (Some vals) dflt
     \<notin> {Inl Exception_both_None, Inl Exception_both_defined}"
proof -
  have a: "Var_init env data scenarios vetted_scenarios (Some variable) year None dflt \<noteq> Inl e"
    if "e = Exception_both_None \<or> e = Exception_both_defined" for e
    using that values_of_variable_error [of env data variable year e]
    by (auto simp: Var_init_def split: sum.splits prod.splits)
  show ?thesis
    using a by (auto simp: Var_init_def)
qed

lemma fill_fill: "fill d (fill d c) = fill d c"
  by (cases c) auto

lemma fill_not_None: "fill d c \<noteq> None"
  by (cases c) auto

lemma fillna_fillna: "fillna d (fillna d vals) = fillna d vals"
  by (cases vals) (auto simp: fill_fill)

lemma no_missing_fillna: "no_missing (fillna d vals)"
proof (cases vals)
  case (Series nm rows)
  then show ?thesis using fill_not_None [of d] by (auto simp: list_all_iff)
next
  case (DataFrame cols rows)
  then show ?thesis using fill_not_None [of d] by (auto simp: list_all_iff)
qed

lemma Var_init_values:
  "Var_init env data scenarios vetted_scenarios variable year vals dflt = Inr v \<Longrightarrow>
   \<exists>vs. v_values v = apply_default dflt vs \<and> v_default v = dflt"
  by (auto simp: Var_init_def split: if_splits option.splits sum.splits prod.splits)

text \<open>
  C9. The fill at the end of the constructor is idempotent: applied to its own result it
  changes nothing. A \<^verbatim>\<open>Var\<close> constructed with a default that is not \<^verbatim>\<open>None\<close> has no
  missing value in any column of its values.
\<close>

theorem default_fill_idempotent_no_missing:
  "apply_default dflt (apply_default dflt vals) = apply_default dflt vals \<and>
   (\<forall>v. Var_init env data scenarios vetted_scenarios variable year vals0 (Some d) = Inr v
        \<longrightarrow> no_missing (v_values v))"
proof -
  have "apply_default dflt (apply_default dflt vals) = apply_default dflt vals"
    by (cases dflt) (auto simp: apply_default_def fillna_fillna)
  moreover have "no_missing (v_values v)"
    if "Var_init env data scenarios vetted_scenarios variable year vals0 (Some d) = Inr v" for v
    using Var_init_values [OF that] by (auto simp: apply_default_def no_missing_fillna)
  ultimately show ?thesis by blast
qed

theorem default_fill_idempotent_no_missing_witness:
  "\<exists>v. Var_init ex_env ex_data ex_scenarios ex_vetted_scenarios (Some ''Energy Supply'')
          (Some (Many [''2020'', ''2030''])) None (Some 0) = Inr v \<and>
       no_missing (v_values v) \<and> cell (v_values v) ''M1 S1'' ''2030'' = Some 0"
proof -
  have "\<exists>v. Var_init ex_env ex_data ex_scenarios ex_vetted_scenarios (Some ''Energy Supply'')
          (Some (Many [''2020'', ''2030''])) None (Some 0) = Inr v \<and>
          cell (v_values v) ''M1 S1'' ''2030'' = Some 0"
    by (simp add: Var_init_def values_of_variable_def Let_def existing_values_def
        ex_env_def ex_data_def apply_default_def frame_at_def)
  then obtain v where h: "Var_init ex_env ex_data ex_scenarios ex_vetted_scenarios
      (Some ''Energy Supply'') (Some (Many [''2020'', ''2030''])) None (Some 0) = Inr v"
      and c: "cell (v_values v) ''M1 S1'' ''2030'' = Some 0"
    by blast
  from default_fill_idempotent_no_missing [of "Some 0" "Series None []" ex_env ex_data
      ex_scenarios ex_vetted_scenarios "Some ''Energy Supply''"
      "Some (Many [''2020'', ''2030''])" None 0] h c
  show ?thesis by blast
qed

subsection \<open>Selection\<close>

lemma set_sort_values: "set (sort_values extra rows) = set rows"
  by (simp add: sort_values_def)

lemma merge_left_names:
  "(\<lambda>(k, n, c). n) ` set (merge_left rows selection extra) = fst ` set rows"
proof (induction rows)
  case Nil
  then show ?case by (simp add: merge_left_def)
next
  case (Cons r rows)
  obtain n c where r: "r = (n, c)" by (cases r)
  have "(\<lambda>(k, n, c). n) ` set (case filter (\<lambda>(n', m). n' = n) selection of
         [] \<Rightarrow> [(map (\<lambda>col. None) extra, n, c)]
       | ms \<Rightarrow> map (\<lambda>(n', m). (map (\<lambda>col. meta_column col m) extra, n, c)) ms) = {n}"
    by (cases "filter (\<lambda>(n', m). n' = n) selection") (auto simp: image_iff split: prod.splits)
  then show ?case using Cons r by (simp add: merge_left_def image_Un)
qed

lemma selected_names_subset_values:
  "set (selected_names (subset_values vals selection extra)) =
     set (row_labels vals) \<inter> fst ` set selection"
proof (cases vals)
  case (Series nm rows)
  have "set (selected_names (subset_values vals selection extra)) =
      (\<lambda>(k, n, c). n) ` set (merge_left (to_frame ''value'' (isin_index selection rows)) selection extra)"
    using Series
    by (force simp: selected_names_def subset_values_def set_sort_values image_iff split: prod.splits)
  also have "\<dots> = fst ` set (to_frame ''value'' (isin_index selection rows))"
    by (rule merge_left_names)
  also have "\<dots> = set (row_labels vals) \<inter> fst ` set selection"
    using Series by (force simp: to_frame_def isin_index_def image_iff)
  finally show ?thesis .
next
  case (DataFrame cols rows)
  have "set (selected_names (subset_values vals selection extra)) =
      (\<lambda>(k, n, c). n) ` set (merge_left (isin_index selection rows) selection extra)"
    using DataFrame
    by (force simp: selected_names_def subset_values_def set_sort_values image_iff split: prod.splits)
  also have "\<dots> = fst ` set (isin_index selection rows)"
    by (rule merge_left_names)
  also have "\<dots> = set (row_labels vals) \<inter> fst ` set selection"
    using DataFrame by (force simp: isin_index_def image_iff)
  finally show ?thesis .
qed

lemma select_Inr:
  "select env self category ip ssp curpol ndc vetted = Inr r \<Longrightarrow>
   \<exists>selection extra. filter_scenarios env self category ip ssp vetted = Inr (selection, extra) \<and>
      r = subset_values (v_values self) selection extra \<and> curpol = None \<and> ndc = None"
  by (auto simp: select_def split: sum.splits prod.splits if_splits)

lemma select_category_Inr:
  "select_category category (sel, ex) = Inr (sel', ex') \<Longrightarrow>
   sel' = filter (\<lambda>(n, m). case category of None \<Rightarrow> True
                    | Some c \<Rightarrow> category_isin (requested all_categories c) m) sel"
  by (auto simp: select_category_def Let_def split: option.splits)

lemma select_ip_Inr:
  "select_ip env ip (sel, ex) = Inr (sel', ex') \<Longrightarrow>
   sel' = filter (\<lambda>(n, m). case ip of None \<Rightarrow> True
                    | Some i \<Rightarrow> n \<in> set (canonical_scenarios (IP_SCENARIOS env)
                         (requested (map fst (IP_SCENARIOS env)) i))) sel"
  by (auto simp: select_ip_def Let_def split: option.splits)

lemma loc_Inr: "loc scenarios n = Inr rs \<Longrightarrow> fst ` set rs = {n} \<and> set rs \<subseteq> set scenarios"
proof -
  assume a: "loc scenarios n = Inr rs"
  then have rs: "rs = filter (\<lambda>(n', m). n' = n) scenarios" and ne: "rs \<noteq> []"
    by (auto simp: loc_def split: list.splits)
  from ne obtain r where "r \<in> set rs" by (cases rs) auto
  with rs show ?thesis by (auto simp: image_iff)
qed

lemma add_unvetted_names:
  "add_unvetted scenarios table sel vs = Inr sel' \<Longrightarrow>
   fst ` set sel' = fst ` set sel \<union> set (canonical_scenarios table vs)"
proof (induction vs arbitrary: sel)
  case Nil
  then show ?case by (simp add: canonical_scenarios_def)
next
  case (Cons v vs)
  show ?case
  proof (cases "map_of table v")
    case None
    with Cons show ?thesis by (simp add: canonical_scenarios_def)
  next
    case (Some p)
    show ?thesis
    proof (cases "scenario p \<in> set (map fst sel)")
      case True
      with Cons Some show ?thesis by (auto simp: canonical_scenarios_def)
    next
      case False
      with Cons.prems Some obtain rs where rs: "loc scenarios (scenario p) = Inr rs"
        and rest: "add_unvetted scenarios table (sel @ rs) vs = Inr sel'"
        by (auto split: sum.splits)
      from Cons.IH [OF rest] loc_Inr [OF rs] Some show ?thesis
        by (auto simp: canonical_scenarios_def image_Un)
    qed
  qed
qed

lemma select_ssp_names:
  assumes "select_ssp env scenarios ssp (sel, ex) = Inr (sel', ex')"
  shows "fst ` set sel' =
     (case ssp of None \<Rightarrow> fst ` set sel
      | Some s \<Rightarrow> set (canonical_scenarios (SSP_SCENARIOS env)
                         (requested (map fst (SSP_SCENARIOS env)) s)))"
proof (cases ssp)
  case None
  with assms show ?thesis by (simp add: select_ssp_def)
next
  case (Some s)
  define vs where "vs = requested (map fst (SSP_SCENARIOS env)) s"
  from assms Some have
    "add_unvetted scenarios (SSP_SCENARIOS env)
       (filter (\<lambda>(n, m). n \<in> set (canonical_scenarios (SSP_SCENARIOS env) vs)) sel) vs = Inr sel'"
    by (auto simp: select_ssp_def Let_def vs_def split: option.splits sum.splits)
  from add_unvetted_names [OF this] have
    "fst ` set sel' = set (canonical_scenarios (SSP_SCENARIOS env) vs)"
    by auto
  with Some show ?thesis by (simp add: vs_def)
qed

lemma filter_scenarios_mono:
  assumes sub: "set (v_vetted_scenarios self) \<subseteq> set (v_scenarios self)"
    and t: "filter_scenarios env self category ip ssp True = Inr (selT, exT)"
    and f: "filter_scenarios env self category ip ssp False = Inr (selF, exF)"
  shows "fst ` set selT \<subseteq> fst ` set selF"
proof -
  from t obtain a1 e1 a2 e2 where
    t1: "select_category category (v_vetted_scenarios self, []) = Inr (a1, e1)" and
    t2: "select_ip env ip (a1, e1) = Inr (a2, e2)" and
    t3: "select_ssp env (v_scenarios self) ssp (a2, e2) = Inr (selT, exT)"
    by (auto simp: filter_scenarios_def split: sum.splits)
  from f obtain b1 f1 b2 f2 where
    f1: "select_category category (v_scenarios self, []) = Inr (b1, f1)" and
    f2: "select_ip env ip (b1, f1) = Inr (b2, f2)" and
    f3: "select_ssp env (v_scenarios self) ssp (b2, f2) = Inr (selF, exF)"
    by (auto simp: filter_scenarios_def split: sum.splits)
  have "set a1 \<subseteq> set b1"
    using sub select_category_Inr [OF t1] select_category_Inr [OF f1] by auto
  then have s2: "set a2 \<subseteq> set b2"
    using select_ip_Inr [OF t2] select_ip_Inr [OF f2] by auto
  show ?thesis
  proof (cases ssp)
    case None
    with s2 select_ssp_names [OF t3] select_ssp_names [OF f3] show ?thesis by auto
  next
    case (Some s)
    with select_ssp_names [OF t3] select_ssp_names [OF f3] show ?thesis by simp
  qed
qed

text \<open>
  C8. When every row of the vetted universe is a row of the full universe, and
  \<^verbatim>\<open>select\<close> returns for both values of \<^verbatim>\<open>vetted\<close> with the other arguments
  the same, every scenario of the result for \<^verbatim>\<open>vetted=True\<close> is a scenario of the result
  for \<^verbatim>\<open>vetted=False\<close>.
\<close>

theorem select_vetted_subset:
  assumes "set (v_vetted_scenarios self) \<subseteq> set (v_scenarios self)"
    and "select env self category ip ssp curpol ndc True = Inr rT"
    and "select env self category ip ssp curpol ndc False = Inr rF"
  shows "set (selected_names rT) \<subseteq> set (selected_names rF)"
proof -
  from select_Inr [OF assms(2)] obtain selT exT where
    t: "filter_scenarios env self category ip ssp True = Inr (selT, exT)"
    and rT: "rT = subset_values (v_values self) selT exT" by blast
  from select_Inr [OF assms(3)] obtain selF exF where
    f: "filter_scenarios env self category ip ssp False = Inr (selF, exF)"
    and rF: "rF = subset_values (v_values self) selF exF" by blast
  from filter_scenarios_mono [OF assms(1) t f] show ?thesis
    unfolding rT rF selected_names_subset_values by blast
qed

lemma ex_var_constructed:
  "Var_init ex_env ex_data ex_scenarios ex_vetted_scenarios (Some ''Energy Supply'')
     (Some (Many [''2020'', ''2030''])) None None = Inr ex_var"
  by (auto simp: Var_init_def values_of_variable_def Let_def existing_values_def
        ex_env_def ex_data_def apply_default_def ex_var_def fun_eq_iff)

lemma index_of_Inr: "index_of x = Inr xs \<Longrightarrow> \<exists>r. x = Inr r \<and> selected_index r = xs"
  by (cases x) (auto simp: index_of_def)

theorem select_vetted_subset_witness:
  "set (v_vetted_scenarios ex_var) \<subseteq> set (v_scenarios ex_var) \<and>
   (\<exists>rT rF. select ex_env ex_var (Some (One ''all'')) None None None None True = Inr rT \<and>
       select ex_env ex_var (Some (One ''all'')) None None None None False = Inr rF \<and>
       selected_names rT = [''M1 S1''] \<and> selected_names rF = [''M1 S1'', ''M1 S2''] \<and>
       set (selected_names rT) \<subseteq> set (selected_names rF))"
proof -
  have sub: "set (v_vetted_scenarios ex_var) \<subseteq> set (v_scenarios ex_var)"
    by (simp add: ex_var_def ex_scenarios_def ex_vetted_scenarios_def)
  have "index_of (select ex_env ex_var (Some (One ''all'')) None None None None True)
      = Inr [([Some ''C1''], ''M1 S1'')]"
    by code_simp
  from index_of_Inr [OF this] obtain rT where
    t: "select ex_env ex_var (Some (One ''all'')) None None None None True = Inr rT"
    and nt: "selected_names rT = [''M1 S1'']"
    by (auto simp: selected_names_def)
  have "index_of (select ex_env ex_var (Some (One ''all'')) None None None None False)
      = Inr [([Some ''C1''], ''M1 S1''), ([Some ''C3''], ''M1 S2'')]"
    by code_simp
  from index_of_Inr [OF this] obtain rF where
    f: "select ex_env ex_var (Some (One ''all'')) None None None None False = Inr rF"
    and nf: "selected_names rF = [''M1 S1'', ''M1 S2'']"
    by (auto simp: selected_names_def)
  from select_vetted_subset [OF sub t f] sub t f nt nf show ?thesis by blast
qed

lemma loc_total: "n \<in> fst ` set scenarios \<Longrightarrow> \<exists>rs. loc scenarios n = Inr rs"
proof -
  assume "n \<in> fst ` set scenarios"
  then have "filter (\<lambda>(n', m). n' = n) scenarios \<noteq> []"
    by (auto simp: filter_empty_conv)
  then show ?thesis by (auto simp: loc_def split: list.splits)
qed

lemma add_unvetted_total:
  "\<forall>v\<in>set vs. \<forall>p. map_of table v = Some p \<longrightarrow> scenario p \<in> fst ` set scenarios \<Longrightarrow>
   \<exists>sel'. add_unvetted scenarios table sel vs = Inr sel'"
proof (induction vs arbitrary: sel)
  case Nil
  then show ?case by simp
next
  case (Cons v vs)
  show ?case
  proof (cases "map_of table v")
    case None
    with Cons show ?thesis by simp
  next
    case (Some p)
    with Cons.prems have "scenario p \<in> fst ` set scenarios" by simp
    from loc_total [OF this] obtain rs where "loc scenarios (scenario p) = Inr rs" by blast
    with Cons Some show ?thesis by simp
  qed
qed

text \<open>
  C2. When every tag of the list \<open>L\<close> is a key of \<^verbatim>\<open>SSP_SCENARIOS\<close> whose canonical
  scenario is a row of the full universe and a row of the values, the call
  \<^verbatim>\<open>select(ssp=L, vetted=True)\<close> returns, and its result has the canonical scenario
  of every tag of \<open>L\<close>, whatever the vetted universe holds.
\<close>

theorem select_ssp_contains_canonical:
  assumes "\<forall>v\<in>set L. \<exists>p. map_of (SSP_SCENARIOS env) v = Some p \<and>
             scenario p \<in> fst ` set (v_scenarios self) \<and>
             scenario p \<in> set (row_labels (v_values self))"
  shows "\<exists>r. select env self None None (Some (Many L)) None None True = Inr r \<and>
             set (canonical_scenarios (SSP_SCENARIOS env) L) \<subseteq> set (selected_names r)"
proof -
  have valid: "find (\<lambda>v. map_of (SSP_SCENARIOS env) v = None) L = None"
    using assms by (auto simp: find_None_iff)
  have "\<forall>v\<in>set L. \<forall>p. map_of (SSP_SCENARIOS env) v = Some p \<longrightarrow>
          scenario p \<in> fst ` set (v_scenarios self)"
  proof (intro ballI allI impI)
    fix v p
    assume "v \<in> set L" and p: "map_of (SSP_SCENARIOS env) v = Some p"
    with assms obtain p' where "map_of (SSP_SCENARIOS env) v = Some p'"
      and "scenario p' \<in> fst ` set (v_scenarios self)" by blast
    with p show "scenario p \<in> fst ` set (v_scenarios self)" by simp
  qed
  from add_unvetted_total [OF this] obtain sel' where
    add: "add_unvetted (v_scenarios self) (SSP_SCENARIOS env)
       (filter (\<lambda>(n, m). n \<in> set (canonical_scenarios (SSP_SCENARIOS env) L))
          (v_vetted_scenarios self)) L = Inr sel'"
    by blast
  have req: "requested (map fst (SSP_SCENARIOS env)) (Many L) = L"
    by (simp add: requested_def)
  have fs: "filter_scenarios env self None None (Some (Many L)) True = Inr (sel', [''SSP''])"
    using valid add
    by (simp add: filter_scenarios_def select_category_def select_ip_def select_ssp_def req)
  then have sel: "select env self None None (Some (Many L)) None None True
      = Inr (subset_values (v_values self) sel' [''SSP''])"
    by (simp add: select_def)
  have names: "fst ` set sel' = set (canonical_scenarios (SSP_SCENARIOS env) L)"
    using add_unvetted_names [OF add] by auto
  have "set (canonical_scenarios (SSP_SCENARIOS env) L) \<subseteq> set (row_labels (v_values self))"
    using assms by (auto simp: canonical_scenarios_def split: option.splits)
  with names sel show ?thesis
    by (simp add: selected_names_subset_values)
qed

theorem select_ssp_contains_canonical_witness:
  "map_of (SSP_SCENARIOS ex_env) ''SSP1-19''
     = Some \<lparr>pathway_name = ''SSP1-19'', scenario = ''M1 S2''\<rparr> \<and>
   ''M1 S2'' \<in> fst ` set (v_scenarios ex_var) \<and>
   ''M1 S2'' \<in> set (row_labels (v_values ex_var)) \<and>
   ''M1 S2'' \<notin> fst ` set (v_vetted_scenarios ex_var) \<and>
   (\<exists>r. select ex_env ex_var None None (Some (Many [''SSP1-19''])) None None True = Inr r \<and>
        ''M1 S2'' \<in> set (selected_names r))"
proof -
  have m: "map_of (SSP_SCENARIOS ex_env) ''SSP1-19''
     = Some \<lparr>pathway_name = ''SSP1-19'', scenario = ''M1 S2''\<rparr>"
    by (simp add: ex_env_def)
  have u: "''M1 S2'' \<in> fst ` set (v_scenarios ex_var)"
    by (simp add: ex_var_def ex_scenarios_def)
  have l: "''M1 S2'' \<in> set (row_labels (v_values ex_var))"
    by (simp add: ex_var_def)
  have h: "\<forall>v\<in>set [''SSP1-19'']. \<exists>p. map_of (SSP_SCENARIOS ex_env) v = Some p \<and>
             scenario p \<in> fst ` set (v_scenarios ex_var) \<and>
             scenario p \<in> set (row_labels (v_values ex_var))"
    using m u l by simp
  have c: "canonical_scenarios (SSP_SCENARIOS ex_env) [''SSP1-19''] = [''M1 S2'']"
    by (simp add: canonical_scenarios_def m)
  have n: "''M1 S2'' \<notin> fst ` set (v_vetted_scenarios ex_var)"
    by (simp add: ex_var_def ex_vetted_scenarios_def)
  from select_ssp_contains_canonical [OF h] m u l n show ?thesis
    unfolding c by auto
qed

lemma Var_init_consistent:
  "Var_init env data scenarios vetted_scenarios variable year vals dflt = Inr v \<Longrightarrow> consistent v"
proof -
  have a: "year_of_values (apply_default dflt vs) = year_of_values vs" for vs :: "'a values"
    by (cases vs; cases dflt) (auto simp: apply_default_def)
  have b: "year_of_values (getitem y rows) = y" for y and rows :: "(name \<times> (year \<Rightarrow> 'a option)) list"
    by (cases y) auto
  assume "Var_init env data scenarios vetted_scenarios variable year vals dflt = Inr v"
  then show ?thesis
    by (auto simp: Var_init_def consistent_def a b values_of_variable_def Let_def
        split: if_splits option.splits sum.splits prod.splits)
qed

text \<open>
  C10. For a constructed \<^verbatim>\<open>Var\<close> with a single year token, \<^verbatim>\<open>select\<close> returns a
  Series named \<^verbatim>\<open>value\<close> whose last index level is the scenario name; with a list of
  years it returns a frame whose columns are those years. Two \<^verbatim>\<open>Var\<close>s made from
  Series that differ in their name tag only give the same result, so the result does not
  tell the year token.
\<close>

theorem select_scalar_named_value:
  "(\<forall>v r. Var_init env data scenarios vetted_scenarios variable year vals dflt = Inr v \<and>
          select env v category ip ssp curpol ndc vetted = Inr r \<longrightarrow>
          (case v_year v of
             Single t \<Rightarrow> (\<exists>extra rows. r = SelectedSeries ''value'' (extra @ [''Name'']) rows)
           | Multiple ys \<Rightarrow> (\<exists>extra rows. r = SelectedFrame ys (extra @ [''Name'']) rows))) \<and>
   (\<forall>v1 v2. Var_init env data scenarios vetted_scenarios None None (Some (Series nm1 rows)) dflt
               = Inr v1 \<and>
            Var_init env data scenarios vetted_scenarios None None (Some (Series nm2 rows)) dflt
               = Inr v2 \<longrightarrow>
            select env v1 category ip ssp curpol ndc vetted
              = select env v2 category ip ssp curpol ndc vetted)"
proof -
  have first: "case v_year v of
             Single t \<Rightarrow> (\<exists>extra rows. r = SelectedSeries ''value'' (extra @ [''Name'']) rows)
           | Multiple ys \<Rightarrow> (\<exists>extra rows. r = SelectedFrame ys (extra @ [''Name'']) rows)"
    if v: "Var_init env data scenarios vetted_scenarios variable year vals dflt = Inr v"
      and r: "select env v category ip ssp curpol ndc vetted = Inr r" for v r
  proof -
    from Var_init_consistent [OF v] have c: "v_year v = year_of_values (v_values v)"
      by (simp add: consistent_def)
    from select_Inr [OF r] obtain selection extra where
      "r = subset_values (v_values v) selection extra" by blast
    with c show ?thesis
      by (cases "v_values v") (auto simp: subset_values_def)
  qed
  have second: "select env v1 category ip ssp curpol ndc vetted
              = select env v2 category ip ssp curpol ndc vetted"
    if "Var_init env data scenarios vetted_scenarios None None (Some (Series nm1 rows)) dflt = Inr v1"
      and "Var_init env data scenarios vetted_scenarios None None (Some (Series nm2 rows)) dflt = Inr v2"
    for v1 v2
  proof -
    from that obtain rows' where
      v1: "v_values v1 = Series nm1 rows'" and v2: "v_values v2 = Series nm2 rows'" and
      u: "v_scenarios v1 = v_scenarios v2" "v_vetted_scenarios v1 = v_vetted_scenarios v2"
      by (cases dflt) (auto simp: Var_init_def apply_default_def)
    have f: "filter_scenarios env v1 category ip ssp vetted
        = filter_scenarios env v2 category ip ssp vetted"
      unfolding filter_scenarios_def u by (rule refl)
    have g: "subset_values (v_values v1) = subset_values (v_values v2)"
      by (simp add: v1 v2 subset_values_def fun_eq_iff)
    show ?thesis unfolding select_def f g by (rule refl)
  qed
  from first second show ?thesis by blast
qed

theorem select_scalar_named_value_witness:
  "\<exists>v r v1 v2.
     Var_init ex_env ex_data ex_scenarios ex_vetted_scenarios (Some ''Energy Supply'')
       (Some (One ''2020'')) None None = Inr v \<and>
     select ex_env v None None None None None True = Inr r \<and>
     v_year v = Single ''2020'' \<and>
     (\<exists>extra rows. r = SelectedSeries ''value'' (extra @ [''Name'']) rows) \<and>
     Var_init ex_env ex_data ex_scenarios ex_vetted_scenarios None None
       (Some (Series (Some ''2020'') [(''M1 S1'', Some 1)])) None = Inr v1 \<and>
     Var_init ex_env ex_data ex_scenarios ex_vetted_scenarios None None
       (Some (Series (Some ''2030'') [(''M1 S1'', Some 1)])) None = Inr v2 \<and>
     v_year v1 \<noteq> v_year v2 \<and>
     select ex_env v1 None None None None None True = select ex_env v2 None None None None None True"
proof -
  have "\<exists>v. Var_init ex_env ex_data ex_scenarios ex_vetted_scenarios (Some ''Energy Supply'')
       (Some (One ''2020'')) None None = Inr v \<and> v_year v = Single ''2020''"
    by (simp add: Var_init_def values_of_variable_def Let_def existing_values_def
        ex_env_def ex_data_def apply_default_def)
  then obtain v where v: "Var_init ex_env ex_data ex_scenarios ex_vetted_scenarios
       (Some ''Energy Supply'') (Some (One ''2020'')) None None = Inr v"
    and y: "v_year v = Single ''2020''" by blast
  have "\<exists>r. select ex_env v None None None None None True = Inr r"
    by (simp add: select_def filter_scenarios_def select_category_def select_ip_def
        select_ssp_def)
  then obtain r where r: "select ex_env v None None None None None True = Inr r" by blast
  have "\<exists>v1. Var_init ex_env ex_data ex_scenarios ex_vetted_scenarios None None
       (Some (Series (Some ''2020'') [(''M1 S1'', Some 1)])) None = Inr v1 \<and>
       v_year v1 = Single ''2020''"
    by (simp add: Var_init_def)
  then obtain v1 where v1: "Var_init ex_env ex_data ex_scenarios ex_vetted_scenarios None None
       (Some (Series (Some ''2020'') [(''M1 S1'', Some 1)])) None = Inr v1"
    and y1: "v_year v1 = Single ''2020''" by blast
  have "\<exists>v2. Var_init ex_env ex_data ex_scenarios ex_vetted_scenarios None None
       (Some (Series (Some ''2030'') [(''M1 S1'', Some 1)])) None = Inr v2 \<and>
       v_year v2 = Single ''2030''"
    by (simp add: Var_init_def)
  then obtain v2 where v2: "Var_init ex_env ex_data ex_scenarios ex_vetted_scenarios None None
       (Some (Series (Some ''2030'') [(''M1 S1'', Some 1)])) None = Inr v2"
    and y2: "v_year v2 = Single ''2030''" by blast
  note t = select_scalar_named_value [of ex_env ex_data ex_scenarios ex_vetted_scenarios
      "Some ''Energy Supply''" "Some (One ''2020'')" None None None None None None None True
      "Some ''2020''" "[(''M1 S1'', Some 1)]" "Some ''2030''"]
  from t v r y have "\<exists>extra rows. r = SelectedSeries ''value'' (extra @ [''Name'']) rows"
    by fastforce
  moreover from t v1 v2 have
    "select ex_env v1 None None None None None True = select ex_env v2 None None None None None True"
    by blast
  moreover from y1 y2 have "v_year v1 \<noteq> v_year v2" by simp
  ultimately show ?thesis using v r y v1 v2 by blast
qed

text \<open>
  C1. In the example, \<^verbatim>\<open>select(category=["C1"], ssp=["SSP1-19"], vetted=False)\<close>
  returns the canonical scenario of SSP1-19, whose category is C3: the loop that adds the
  canonical scenarios which the selection lacks brings back a scenario that the category
  filter removed.
\<close>

theorem select_ssp_override_ignores_category:
  "index_of (select ex_env ex_var (Some (Many [''C1''])) None (Some (Many [''SSP1-19'']))
       None None False)
   = Inr [([Some ''C3'', Some ''SSP1-19''], ''M1 S2'')]"
  by code_simp

subsection \<open>Arithmetic\<close>

lemma set_union_labels: "set (union_labels xs ys) = set xs \<union> set ys"
  by (simp add: union_labels_def)

lemma map_of_tabulate:
  "map_of (map (\<lambda>n. (n, g n)) idx) n = (if n \<in> set idx then Some (g n) else None)"
  by (induction idx) auto

lemma map_of_None_iff: "(map_of rows n = None) = (n \<notin> fst ` set rows)"
  by (simp add: map_of_eq_None_iff)

lemma row_labels_apply_default: "row_labels (apply_default d vals) = row_labels vals"
  by (cases vals; cases d) (auto simp: apply_default_def)

lemma year_of_values_apply_default: "year_of_values (apply_default d vals) = year_of_values vals"
  by (cases vals; cases d) (auto simp: apply_default_def)

lemma map_of_map_rows:
  "map_of (map (\<lambda>(n, c). (n, h c)) rows) n = map_option h (map_of rows n)"
  by (induction rows) auto

lemma cell_apply_default:
  assumes "has_column vals y" and "n \<in> set (row_labels vals)"
  shows "cell (apply_default d vals) n y = default_cell d (cell vals n y)"
proof (cases d)
  case None
  then show ?thesis by (simp add: apply_default_def default_cell_def)
next
  case (Some d0)
  show ?thesis
  proof (cases vals)
    case (Series nm rows)
    with assms obtain c where "map_of rows n = Some c"
      by (cases "map_of rows n") (auto simp: map_of_None_iff)
    with Series Some show ?thesis
      by (simp add: apply_default_def default_cell_def series_at_def map_of_map_rows)
  next
    case (DataFrame cols rows)
    with assms obtain c where "map_of rows n = Some c"
      by (cases "map_of rows n") (auto simp: map_of_None_iff)
    with DataFrame Some assms show ?thesis
      by (simp add: apply_default_def default_cell_def frame_at_def map_of_map_rows)
  qed
qed

lemma Var_init_from_values:
  "Var_init env data scenarios vetted_scenarios None None (Some vals) dflt =
     Inr \<lparr>v_data = data, v_scenarios = scenarios, v_vetted_scenarios = vetted_scenarios,
          v_variable = None, v_year = year_of_values vals,
          v_values = apply_default dflt vals, v_default = dflt\<rparr>"
  by (simp add: Var_init_def)

lemma arithmetic_Variable:
  assumes "check_and_harmonise_inputs a (Variable b) = Inr (sv, Vals w)"
  shows "\<exists>r. arithmetic env op a (Variable b) = Inr r \<and>
           v_year r = year_of_values (values_op (float_op env op) sv w) \<and>
           v_values r = apply_default (v_default a) (values_op (float_op env op) sv w) \<and>
           v_default r = v_default a"
  using assms by (simp add: arithmetic_def Var_init_from_values)

lemma cell_values_op_frames:
  "cell (values_op f (DataFrame c1 r1) (DataFrame c2 r2)) n y =
     (if y \<in> set c1 \<union> set c2 \<and> n \<in> fst ` set r1 \<union> fst ` set r2
      then cell_op f (frame_at c1 r1 n y) (frame_at c2 r2 n y) else None)"
  by (simp add: frame_at_def [of "union_labels c1 c2"] set_union_labels map_of_tabulate)

lemma cell_values_op_series:
  "cell (values_op f (Series n1 r1) (Series n2 r2)) n y =
     (if n \<in> fst ` set r1 \<union> fst ` set r2
      then cell_op f (series_at r1 n) (series_at r2 n) else None)"
  by (simp add: series_at_def [of "map _ _"] set_union_labels map_of_tabulate)

lemma row_labels_values_op_frames:
  "set (row_labels (values_op f (DataFrame c1 r1) (DataFrame c2 r2))) = fst ` set r1 \<union> fst ` set r2"
  by (simp add: set_union_labels image_Un comp_def)

lemma row_labels_values_op_series:
  "set (row_labels (values_op f (Series n1 r1) (Series n2 r2))) = fst ` set r1 \<union> fst ` set r2"
  by (simp add: set_union_labels image_Un comp_def)

lemma frame_at_absent: "n \<notin> fst ` set rows \<Longrightarrow> frame_at cols rows n y = None"
  by (simp add: frame_at_def map_of_None_iff [symmetric])

lemma series_at_absent: "n \<notin> fst ` set rows \<Longrightarrow> series_at rows n = None"
  by (simp add: series_at_def map_of_None_iff [symmetric])

lemma frame_at_replicated:
  "y \<in> set cols \<Longrightarrow> frame_at cols (map (\<lambda>(n, c). (n, \<lambda>y. c)) rows) n y = series_at rows n"
  by (cases "map_of rows n") (simp_all add: frame_at_def series_at_def map_of_map_rows)

lemma consistent_Multiple:
  "consistent v \<Longrightarrow> v_year v = Multiple ys \<Longrightarrow> \<exists>rows. v_values v = DataFrame ys rows"
  by (cases "v_values v") (auto simp: consistent_def)

lemma consistent_Single:
  "consistent v \<Longrightarrow> v_year v = Single t \<Longrightarrow> \<exists>nm rows. v_values v = Series nm rows"
  by (cases "v_values v") (auto simp: consistent_def)

text \<open>
  C3. For two \<^verbatim>\<open>Var\<close>s in vector mode, each of the four operators raises the exception
  for incompatible years exactly when the sets of their years differ. When the sets are
  equal it returns a \<^verbatim>\<open>Var\<close> over that set of years and over the scenarios of either
  operand, and its cell at a scenario and a year is the operation on the two cells at that
  scenario and that year, wherever the year stands in either list (followed by the fill
  with the default of \<^verbatim>\<open>self\<close>).
\<close>

theorem vector_arithmetic_years:
  assumes "consistent a" and "consistent b"
    and "v_year a = Multiple y1" and "v_year b = Multiple y2"
    and "unique_labels (v_values a)" and "unique_labels (v_values b)"
  shows "((\<exists>e. arithmetic env op a (Variable b) = Inl e) = (set y1 \<noteq> set y2)) \<and>
    (set y1 \<noteq> set y2 \<longrightarrow> arithmetic env op a (Variable b) = Inl (Exception_years y1 y2)) \<and>
    (set y1 = set y2 \<longrightarrow>
       (\<exists>r ys. arithmetic env op a (Variable b) = Inr r \<and>
          v_year r = Multiple ys \<and> set ys = set y1 \<and>
          set (row_labels (v_values r))
            = set (row_labels (v_values a)) \<union> set (row_labels (v_values b)) \<and>
          (\<forall>n y. n \<in> set (row_labels (v_values r)) \<and> y \<in> set y1 \<longrightarrow>
             cell (v_values r) n y =
               default_cell (v_default a)
                 (cell_op (float_op env op) (cell (v_values a) n y) (cell (v_values b) n y)))))"
proof (cases "set y1 = set y2")
  case False
  with assms(3,4) have "arithmetic env op a (Variable b) = Inl (Exception_years y1 y2)"
    by (simp add: arithmetic_def check_and_harmonise_inputs_def)
  with False show ?thesis by simp
next
  case True
  from consistent_Multiple [OF assms(1,3)] obtain r1 where va: "v_values a = DataFrame y1 r1"
    by blast
  from consistent_Multiple [OF assms(2,4)] obtain r2 where vb: "v_values b = DataFrame y2 r2"
    by blast
  have "check_and_harmonise_inputs a (Variable b) = Inr (v_values a, Vals (v_values b))"
    using assms(3,4) True by (simp add: check_and_harmonise_inputs_def)
  from arithmetic_Variable [OF this, of env op] obtain r where
    r: "arithmetic env op a (Variable b) = Inr r" and
    yr: "v_year r = year_of_values (values_op (float_op env op) (v_values a) (v_values b))" and
    vr: "v_values r = apply_default (v_default a)
           (values_op (float_op env op) (v_values a) (v_values b))"
    by blast
  have y: "v_year r = Multiple (union_labels y1 y2)"
    using yr by (simp add: va vb)
  have s: "set (union_labels y1 y2) = set y1"
    using True by (simp add: set_union_labels)
  have l: "set (row_labels (v_values r))
            = set (row_labels (v_values a)) \<union> set (row_labels (v_values b))"
    unfolding vr row_labels_apply_default unfolding va vb
    by (simp add: set_union_labels)
  have c: "cell (v_values r) n y =
               default_cell (v_default a)
                 (cell_op (float_op env op) (cell (v_values a) n y) (cell (v_values b) n y))"
    if n: "n \<in> set (row_labels (v_values r))" and yy: "y \<in> set y1" for n y
  proof -
    let ?w = "values_op (float_op env op) (v_values a) (v_values b)"
    have hc: "has_column ?w y" using yy by (simp add: va vb set_union_labels)
    have hn: "n \<in> set (row_labels ?w)"
      using n unfolding vr row_labels_apply_default .
    have "cell (v_values r) n y = default_cell (v_default a) (cell ?w n y)"
      unfolding vr by (rule cell_apply_default [OF hc hn])
    also have "cell ?w n y =
        cell_op (float_op env op) (cell (v_values a) n y) (cell (v_values b) n y)"
      using hn yy unfolding va vb
      by (simp add: cell_values_op_frames row_labels_values_op_frames del: values_op.simps)
    finally show ?thesis .
  qed
  from r y s l c True show ?thesis by auto
qed

lemma replicate_years_Series:
  "distinct ys \<Longrightarrow> ys \<noteq> [] \<Longrightarrow>
   replicate_years ys (Series nm rows) = Inr (DataFrame ys (map (\<lambda>(n, c). (n, \<lambda>y. c)) rows))"
  by (simp add: replicate_years_def)

lemma fst_replicated: "fst ` set (map (\<lambda>(n, c). (n, \<lambda>y. c)) rows) = fst ` set rows"
  by (force simp: image_iff)

lemma union_labels_same: "union_labels xs xs = xs"
  by (simp add: union_labels_def)

text \<open>
  C4, as amended. For a vector-mode \<^verbatim>\<open>v\<close> and a scalar-mode \<^verbatim>\<open>s\<close>, both \<^verbatim>\<open>v OP s\<close>
  and \<^verbatim>\<open>s OP v\<close> return a vector-mode \<^verbatim>\<open>Var\<close> with the years of \<^verbatim>\<open>v\<close>. Its cell at
  a scenario of either operand and a year of \<^verbatim>\<open>v\<close> is the operation on the cell of
  \<^verbatim>\<open>v\<close> there and the one value of \<^verbatim>\<open>s\<close> at the scenario, in the order of the operands,
  where a missing result is replaced by the default of the left operand when it has one.
\<close>

theorem vector_scalar_broadcast:
  assumes "consistent v" and "consistent s"
    and "v_year v = Multiple ys" and "v_year s = Single t"
    and "unique_labels (v_values v)" and "unique_labels (v_values s)"
  shows "(\<exists>r. arithmetic env op v (Variable s) = Inr r \<and> v_year r = Multiple ys \<and>
            (\<forall>n y. y \<in> set ys \<and>
                 n \<in> set (row_labels (v_values v)) \<union> set (row_labels (v_values s)) \<longrightarrow>
               cell (v_values r) n y =
                 default_cell (v_default v)
                   (cell_op (float_op env op) (cell (v_values v) n y) (cell (v_values s) n y)))) \<and>
         (\<exists>r. arithmetic env op s (Variable v) = Inr r \<and> v_year r = Multiple ys \<and>
            (\<forall>n y. y \<in> set ys \<and>
                 n \<in> set (row_labels (v_values v)) \<union> set (row_labels (v_values s)) \<longrightarrow>
               cell (v_values r) n y =
                 default_cell (v_default s)
                   (cell_op (float_op env op) (cell (v_values s) n y) (cell (v_values v) n y))))"
proof -
  from consistent_Multiple [OF assms(1,3)] obtain r1 where vv: "v_values v = DataFrame ys r1"
    by blast
  from consistent_Single [OF assms(2,4)] obtain nm r2 where vs: "v_values s = Series nm r2"
    by blast
  from assms(5) vv have d: "distinct ys" by simp
  let ?f = "float_op env op"
  let ?h = "map (\<lambda>(n, c). (n, \<lambda>y. c)) r2"
  show ?thesis
  proof (cases "ys = []")
    case True
    have 1: "check_and_harmonise_inputs v (Variable s) = Inr (v_values v, Vals (DataFrame [] []))"
      using assms(3,4) True by (simp add: check_and_harmonise_inputs_def replicate_years_def)
    have 2: "check_and_harmonise_inputs s (Variable v) = Inr (DataFrame [] [], Vals (v_values v))"
      using assms(3,4) True by (simp add: check_and_harmonise_inputs_def replicate_years_def)
    from arithmetic_Variable [OF 1, of env op] arithmetic_Variable [OF 2, of env op] True
    show ?thesis by (auto simp: vv union_labels_same)
  next
    case False
    have 1: "check_and_harmonise_inputs v (Variable s) = Inr (v_values v, Vals (DataFrame ys ?h))"
      using assms(3,4) by (simp add: check_and_harmonise_inputs_def vs replicate_years_Series [OF d False])
    have 2: "check_and_harmonise_inputs s (Variable v) = Inr (DataFrame ys ?h, Vals (v_values v))"
      using assms(3,4) by (simp add: check_and_harmonise_inputs_def vs replicate_years_Series [OF d False])
    from arithmetic_Variable [OF 1, of env op] obtain ra where
      ra: "arithmetic env op v (Variable s) = Inr ra" and
      ya: "v_year ra = year_of_values (values_op ?f (v_values v) (DataFrame ys ?h))" and
      va: "v_values ra = apply_default (v_default v) (values_op ?f (v_values v) (DataFrame ys ?h))"
      by blast
    from arithmetic_Variable [OF 2, of env op] obtain rb where
      rb: "arithmetic env op s (Variable v) = Inr rb" and
      yb: "v_year rb = year_of_values (values_op ?f (DataFrame ys ?h) (v_values v))" and
      vb: "v_values rb = apply_default (v_default s) (values_op ?f (DataFrame ys ?h) (v_values v))"
      by blast
    have ca: "cell (v_values ra) n y =
                 default_cell (v_default v) (cell_op ?f (cell (v_values v) n y) (cell (v_values s) n y))"
      if "y \<in> set ys" and "n \<in> set (row_labels (v_values v)) \<union> set (row_labels (v_values s))"
      for n y
    proof -
      let ?w = "values_op ?f (DataFrame ys r1) (DataFrame ys ?h)"
      have hc: "has_column ?w y" using that by (simp add: set_union_labels)
      have hn: "n \<in> set (row_labels ?w)"
        using that unfolding row_labels_values_op_frames fst_replicated by (simp add: vv vs)
      have "cell (v_values ra) n y = default_cell (v_default v) (cell ?w n y)"
        unfolding va vv by (rule cell_apply_default [OF hc hn])
      also have "cell ?w n y = cell_op ?f (frame_at ys r1 n y) (frame_at ys ?h n y)"
        using hn that(1) unfolding cell_values_op_frames row_labels_values_op_frames by simp
      also have "frame_at ys ?h n y = series_at r2 n"
        using that(1) by (rule frame_at_replicated)
      finally show ?thesis by (simp add: vv vs)
    qed
    have cb: "cell (v_values rb) n y =
                 default_cell (v_default s) (cell_op ?f (cell (v_values s) n y) (cell (v_values v) n y))"
      if "y \<in> set ys" and "n \<in> set (row_labels (v_values v)) \<union> set (row_labels (v_values s))"
      for n y
    proof -
      let ?w = "values_op ?f (DataFrame ys ?h) (DataFrame ys r1)"
      have hc: "has_column ?w y" using that by (simp add: set_union_labels)
      have hn: "n \<in> set (row_labels ?w)"
        using that unfolding row_labels_values_op_frames fst_replicated by (auto simp: vv vs)
      have "cell (v_values rb) n y = default_cell (v_default s) (cell ?w n y)"
        unfolding vb vv by (rule cell_apply_default [OF hc hn])
      also have "cell ?w n y = cell_op ?f (frame_at ys ?h n y) (frame_at ys r1 n y)"
        using hn that(1) unfolding cell_values_op_frames row_labels_values_op_frames by simp
      also have "frame_at ys ?h n y = series_at r2 n"
        using that(1) by (rule frame_at_replicated)
      finally show ?thesis by (simp add: vv vs)
    qed
    have "v_year ra = Multiple ys" using ya by (simp add: vv union_labels_same)
    moreover have "v_year rb = Multiple ys" using yb by (simp add: vv union_labels_same)
    ultimately show ?thesis using ra rb ca cb by blast
  qed
qed

lemma default_cell_None: "default_cell d None = d"
  by (cases d) (auto simp: default_cell_def)

lemma cell_op_None: "cell_op f None b = None" "cell_op f a None = None"
  by (cases a; simp add: cell_op_def)+

lemma has_column_apply_default: "has_column (apply_default d vals) y = has_column vals y"
  by (cases vals; cases d) (auto simp: apply_default_def)

lemma one_sided_frames:
  assumes "(n \<in> fst ` set r1) \<noteq> (n \<in> fst ` set r2)"
  shows "cell (values_op f (DataFrame c1 r1) (DataFrame c2 r2)) n y = None"
    and "n \<in> set (row_labels (values_op f (DataFrame c1 r1) (DataFrame c2 r2)))"
proof -
  have "frame_at c1 r1 n y = None \<or> frame_at c2 r2 n y = None"
  proof (cases "n \<in> fst ` set r1")
    case True
    with assms have "n \<notin> fst ` set r2" by simp
    then show ?thesis by (simp add: frame_at_absent)
  next
    case False
    then show ?thesis by (simp add: frame_at_absent)
  qed
  then show "cell (values_op f (DataFrame c1 r1) (DataFrame c2 r2)) n y = None"
    unfolding cell_values_op_frames by (auto simp: cell_op_None)
  from assms show "n \<in> set (row_labels (values_op f (DataFrame c1 r1) (DataFrame c2 r2)))"
    unfolding row_labels_values_op_frames by auto
qed

lemma one_sided_series:
  assumes "(n \<in> fst ` set r1) \<noteq> (n \<in> fst ` set r2)"
  shows "cell (values_op f (Series n1 r1) (Series n2 r2)) n y = None"
    and "n \<in> set (row_labels (values_op f (Series n1 r1) (Series n2 r2)))"
proof -
  have "series_at r1 n = None \<or> series_at r2 n = None"
  proof (cases "n \<in> fst ` set r1")
    case True
    with assms have "n \<notin> fst ` set r2" by simp
    then show ?thesis by (simp add: series_at_absent)
  next
    case False
    then show ?thesis by (simp add: series_at_absent)
  qed
  then show "cell (values_op f (Series n1 r1) (Series n2 r2)) n y = None"
    unfolding cell_values_op_series by (auto simp: cell_op_None)
  from assms show "n \<in> set (row_labels (values_op f (Series n1 r1) (Series n2 r2)))"
    unfolding row_labels_values_op_series by auto
qed

lemma one_sided_result:
  assumes h: "check_and_harmonise_inputs a (Variable b) = Inr (sv, Vals w)"
    and c: "\<And>y. cell (values_op (float_op env op) sv w) n y = None"
    and l: "n \<in> set (row_labels (values_op (float_op env op) sv w))"
  shows "\<exists>r. arithmetic env op a (Variable b) = Inr r \<and> n \<in> set (row_labels (v_values r)) \<and>
           (\<forall>y. has_column (v_values r) y \<longrightarrow> cell (v_values r) n y = v_default a)"
proof -
  from arithmetic_Variable [OF h, of env op] obtain r where
    r: "arithmetic env op a (Variable b) = Inr r" and
    vr: "v_values r = apply_default (v_default a) (values_op (float_op env op) sv w)"
    by blast
  have "cell (v_values r) n y = v_default a" if "has_column (v_values r) y" for y
  proof -
    from that have "has_column (values_op (float_op env op) sv w) y"
      by (simp add: vr has_column_apply_default)
    from cell_apply_default [OF this l] show ?thesis
      by (simp add: vr c default_cell_None)
  qed
  with r l show ?thesis by (simp add: vr row_labels_apply_default)
qed

text \<open>
  C5, as amended. Between two \<^verbatim>\<open>Var\<close>s whose years are compatible, an operator
  returns, and a scenario that only one operand has is a row of the result; every cell of
  that row holds the default of \<^verbatim>\<open>self\<close>: it is missing when \<^verbatim>\<open>self\<close> has no
  default. One combination is left out: a scalar-mode operand with a vector-mode operand
  that has no year, where the scalar is replicated over no year and loses its rows.
\<close>

theorem one_sided_scenario_row:
  assumes "consistent a" and "consistent b"
    and "unique_labels (v_values a)" and "unique_labels (v_values b)"
    and "\<forall>y1 y2. v_year a = Multiple y1 \<and> v_year b = Multiple y2 \<longrightarrow> set y1 = set y2"
    and "\<forall>t. v_year a = Single t \<longrightarrow> v_year b \<noteq> Multiple []"
    and "\<forall>t. v_year b = Single t \<longrightarrow> v_year a \<noteq> Multiple []"
    and "(n \<in> set (row_labels (v_values a))) \<noteq> (n \<in> set (row_labels (v_values b)))"
  shows "\<exists>r. arithmetic env op a (Variable b) = Inr r \<and> n \<in> set (row_labels (v_values r)) \<and>
           (\<forall>y. has_column (v_values r) y \<longrightarrow> cell (v_values r) n y = v_default a)"
proof (cases "v_year a")
  case (Multiple y1)
  from consistent_Multiple [OF assms(1) Multiple] obtain r1 where va: "v_values a = DataFrame y1 r1"
    by blast
  show ?thesis
  proof (cases "v_year b")
    case b: (Multiple y2)
    from consistent_Multiple [OF assms(2) b] obtain r2 where vb: "v_values b = DataFrame y2 r2"
      by blast
    from assms(5) Multiple b have "set y1 = set y2" by blast
    then have h: "check_and_harmonise_inputs a (Variable b) = Inr (v_values a, Vals (v_values b))"
      using Multiple b by (simp add: check_and_harmonise_inputs_def)
    from assms(8) have o: "(n \<in> fst ` set r1) \<noteq> (n \<in> fst ` set r2)" by (simp add: va vb)
    show ?thesis
      by (rule one_sided_result [OF h]) (simp_all only: va vb one_sided_frames [OF o])
  next
    case b: (Single t)
    from consistent_Single [OF assms(2) b] obtain nm r2 where vb: "v_values b = Series nm r2"
      by blast
    from assms(3) va have d1: "distinct y1" by simp
    from assms(7) Multiple b have ne1: "y1 \<noteq> []" by simp
    have h: "check_and_harmonise_inputs a (Variable b)
        = Inr (v_values a, Vals (DataFrame y1 (map (\<lambda>(n, c). (n, \<lambda>y. c)) r2)))"
      using Multiple b
      by (simp add: check_and_harmonise_inputs_def vb replicate_years_Series [OF d1 ne1])
    from assms(8) have o: "(n \<in> fst ` set r1)
        \<noteq> (n \<in> fst ` set (map (\<lambda>(n, c). (n, \<lambda>y. c)) r2))"
      unfolding fst_replicated by (simp add: va vb)
    show ?thesis
      by (rule one_sided_result [OF h]) (simp_all only: va one_sided_frames [OF o])
  qed
next
  case (Single t)
  from consistent_Single [OF assms(1) Single] obtain nm r1 where va: "v_values a = Series nm r1"
    by blast
  show ?thesis
  proof (cases "v_year b")
    case b: (Multiple y2)
    from consistent_Multiple [OF assms(2) b] obtain r2 where vb: "v_values b = DataFrame y2 r2"
      by blast
    from assms(4) vb have d2: "distinct y2" by simp
    from assms(6) Single b have ne2: "y2 \<noteq> []" by simp
    have h: "check_and_harmonise_inputs a (Variable b)
        = Inr (DataFrame y2 (map (\<lambda>(n, c). (n, \<lambda>y. c)) r1), Vals (v_values b))"
      using Single b
      by (simp add: check_and_harmonise_inputs_def va replicate_years_Series [OF d2 ne2])
    from assms(8) have o: "(n \<in> fst ` set (map (\<lambda>(n, c). (n, \<lambda>y. c)) r1))
        \<noteq> (n \<in> fst ` set r2)"
      unfolding fst_replicated by (simp add: va vb)
    show ?thesis
      by (rule one_sided_result [OF h]) (simp_all only: vb one_sided_frames [OF o])
  next
    case b: (Single t2)
    from consistent_Single [OF assms(2) b] obtain nm2 r2 where vb: "v_values b = Series nm2 r2"
      by blast
    have h: "check_and_harmonise_inputs a (Variable b) = Inr (v_values a, Vals (v_values b))"
      using Single b by (simp add: check_and_harmonise_inputs_def)
    from assms(8) have o: "(n \<in> fst ` set r1) \<noteq> (n \<in> fst ` set r2)" by (simp add: va vb)
    show ?thesis
      by (rule one_sided_result [OF h]) (simp_all only: va vb one_sided_series [OF o])
  qed
qed

lemma interpolate_Inr:
  "interpolate env data variable rows ys = Inr rows' \<Longrightarrow>
   rows' = map (\<lambda>(n, c). (n, \<lambda>y. if y \<in> set ys then interp_cell env data variable y n else c y)) rows"
proof (induction ys arbitrary: rows)
  case Nil
  then show ?case by (simp add: case_prod_unfold)
next
  case (Cons y ys)
  from Cons.prems obtain f where f: "py_float env y = Some f"
    and rest: "interpolate env data variable (setitem rows y (get_interp env data variable f)) ys
      = Inr rows'"
    by (auto split: option.splits)
  from Cons.IH [OF rest] f show ?case
    by (auto simp: setitem_def interp_cell_def fun_eq_iff)
qed

text \<open>
  C6, as amended. A \<^verbatim>\<open>Var\<close> constructed from a variable name and a list of years
  \<open>Y\<close> has the years \<open>Y\<close>, and its values have exactly the columns \<open>Y\<close>, in that order,
  and one row per dataset row of the variable. Before the fill with the default, a column
  of a known year holds the cells of the dataset and a column of any other year holds the
  values of the interpolation service for that year; the final table is this one after the
  fill. When every year of \<open>Y\<close> is known, the result does not depend on the service.
\<close>

theorem Var_init_year_columns:
  "(\<forall>v. Var_init env data scenarios vetted_scenarios (Some variable) (Some (Many Y)) None dflt = Inr v
      \<longrightarrow> v_year v = Multiple Y \<and>
          v_values v = apply_default dflt (DataFrame Y
            (map (\<lambda>r. (row_Name r,
                       \<lambda>y. if y \<in> set Y
                           then if y \<in> set (YEARS env) then row_cells r y
                                else interp_cell env data variable y (row_Name r)
                           else None))
               (filter (\<lambda>r. row_Variable r = variable) (data_rows data))))) \<and>
   (set Y \<subseteq> set (YEARS env) \<longrightarrow>
      (\<forall>p g. Var_init (env\<lparr>py_float := p, get_interp := g\<rparr>) data scenarios vetted_scenarios
                (Some variable) (Some (Many Y)) None dflt
            = Var_init env data scenarios vetted_scenarios (Some variable) (Some (Many Y)) None dflt))"
proof -
  have first: "v_year v = Multiple Y \<and>
          v_values v = apply_default dflt (DataFrame Y
            (map (\<lambda>r. (row_Name r,
                       \<lambda>y. if y \<in> set Y
                           then if y \<in> set (YEARS env) then row_cells r y
                                else interp_cell env data variable y (row_Name r)
                           else None))
               (filter (\<lambda>r. row_Variable r = variable) (data_rows data))))"
    if v: "Var_init env data scenarios vetted_scenarios (Some variable) (Some (Many Y)) None dflt
       = Inr v" for v
  proof -
    let ?ex = "remdups (filter (\<lambda>y. y \<in> set (YEARS env)) Y)"
    let ?in = "remdups (filter (\<lambda>y. y \<notin> set (YEARS env)) Y)"
    from v obtain rows rows' where
      e: "existing_values data variable ?ex = Inr rows" and
      i: "interpolate env data variable rows ?in = Inr rows'" and
      y: "v_year v = Multiple Y" and vv: "v_values v = apply_default dflt (DataFrame Y rows')"
      by (auto simp: Var_init_def values_of_variable_def Let_def split: sum.splits)
    from e have rows: "rows = map (\<lambda>r. (row_Name r,
                          \<lambda>y. if y \<in> set ?ex then row_cells r y else None))
                  (filter (\<lambda>r. row_Variable r = variable) (data_rows data))"
      by (auto simp: existing_values_def split: if_splits)
    have "rows' = map (\<lambda>r. (row_Name r,
                       \<lambda>y. if y \<in> set Y
                           then if y \<in> set (YEARS env) then row_cells r y
                                else interp_cell env data variable y (row_Name r)
                           else None))
               (filter (\<lambda>r. row_Variable r = variable) (data_rows data))"
      unfolding interpolate_Inr [OF i] rows by (auto simp: fun_eq_iff)
    with y vv show ?thesis by simp
  qed
  have second: "Var_init (env\<lparr>py_float := p, get_interp := g\<rparr>) data scenarios vetted_scenarios
                (Some variable) (Some (Many Y)) None dflt
            = Var_init env data scenarios vetted_scenarios (Some variable) (Some (Many Y)) None dflt"
    if "set Y \<subseteq> set (YEARS env)" for p g
  proof -
    from that have "filter (\<lambda>y. y \<notin> set (YEARS env)) Y = []"
      by (auto simp: filter_empty_conv)
    then have "values_of_variable (env\<lparr>py_float := p, get_interp := g\<rparr>) data variable
          (Some (Many Y))
        = values_of_variable env data variable (Some (Many Y))"
      by (simp add: values_of_variable_def Let_def cong: sum.case_cong)
    then show ?thesis
      by (simp add: Var_init_def)
  qed
  from first second show ?thesis by blast
qed

lemma ex_transport_constructed:
  "Var_init ex_env ex_data ex_scenarios ex_vetted_scenarios (Some ''Transport'')
     (Some (Many [''2030'', ''2020''])) None None = Inr ex_transport"
  by (auto simp: Var_init_def values_of_variable_def Let_def existing_values_def
        ex_env_def ex_data_def apply_default_def ex_transport_def fun_eq_iff)

lemma ex_transport_2020_constructed:
  "Var_init ex_env ex_data ex_scenarios ex_vetted_scenarios (Some ''Transport'')
     (Some (Many [''2020''])) None None = Inr ex_transport_2020"
  by (auto simp: Var_init_def values_of_variable_def Let_def existing_values_def
        ex_env_def ex_data_def apply_default_def ex_transport_2020_def fun_eq_iff)

lemma ex_transport0_constructed:
  "Var_init ex_env ex_data ex_scenarios ex_vetted_scenarios (Some ''Transport'')
     (Some (Many [''2020'', ''2030''])) None (Some 0) = Inr ex_transport0"
  by (auto simp: Var_init_def values_of_variable_def Let_def existing_values_def
        ex_env_def ex_data_def apply_default_def ex_transport0_def fun_eq_iff)

lemma ex_scalar_constructed:
  "Var_init ex_env ex_data ex_scenarios ex_vetted_scenarios (Some ''Energy Supply'')
     (Some (One ''2030'')) None None = Inr ex_scalar"
  by (auto simp: Var_init_def values_of_variable_def Let_def existing_values_def
        ex_env_def ex_data_def apply_default_def ex_scalar_def)

lemma ex_transport_no_years_constructed:
  "Var_init ex_env ex_data ex_scenarios ex_vetted_scenarios (Some ''Transport'')
     (Some (Many [])) None None = Inr ex_transport_no_years"
  by (auto simp: Var_init_def values_of_variable_def Let_def existing_values_def
        ex_env_def ex_data_def apply_default_def ex_transport_no_years_def fun_eq_iff)

subsection \<open>The example, evaluated\<close>

lemma cell_of_Inr: "cell_of x n y = Inr c \<Longrightarrow> \<exists>v. x = Inr v \<and> cell (v_values v) n y = c"
  by (cases x) (auto simp: cell_of_def)

theorem vector_arithmetic_years_witness:
  "consistent ex_var \<and> consistent ex_transport \<and> consistent ex_transport_2020 \<and>
   unique_labels (v_values ex_var) \<and> unique_labels (v_values ex_transport) \<and>
   unique_labels (v_values ex_transport_2020) \<and>
   v_year ex_var = Multiple [''2020'', ''2030''] \<and>
   v_year ex_transport = Multiple [''2030'', ''2020''] \<and>
   v_year ex_transport_2020 = Multiple [''2020''] \<and>
   (\<exists>r ys. Var_add ex_env ex_var (Variable ex_transport) = Inr r \<and> v_year r = Multiple ys \<and>
       set ys = set [''2020'', ''2030''] \<and> cell (v_values r) ''M1 S1'' ''2020'' = Some 5) \<and>
   Var_add ex_env ex_var (Variable ex_transport_2020)
     = Inl (Exception_years [''2020'', ''2030''] [''2020''])"
proof -
  have c: "consistent ex_var" "consistent ex_transport" "consistent ex_transport_2020"
    by (simp_all add: consistent_def ex_var_def ex_transport_def ex_transport_2020_def)
  have u: "unique_labels (v_values ex_var)" "unique_labels (v_values ex_transport)"
    "unique_labels (v_values ex_transport_2020)"
    by (simp_all add: ex_var_def ex_transport_def ex_transport_2020_def)
  have y: "v_year ex_var = Multiple [''2020'', ''2030'']"
    "v_year ex_transport = Multiple [''2030'', ''2020'']"
    "v_year ex_transport_2020 = Multiple [''2020'']"
    by (simp_all add: ex_var_def ex_transport_def ex_transport_2020_def)
  note t1 = vector_arithmetic_years [OF c(1) c(2) y(1) y(2) u(1) u(2), of ex_env Add]
  note t2 = vector_arithmetic_years [OF c(1) c(3) y(1) y(3) u(1) u(3), of ex_env Add]
  have s: "set [''2020'', ''2030''] = set [''2030'', ''2020'']" by auto
  from t1 [THEN conjunct2, THEN conjunct2, THEN mp, OF s] obtain r ys where
    r: "arithmetic ex_env Add ex_var (Variable ex_transport) = Inr r" and
    ys: "v_year r = Multiple ys" "set ys = set [''2020'', ''2030'']" and
    l: "set (row_labels (v_values r))
         = set (row_labels (v_values ex_var)) \<union> set (row_labels (v_values ex_transport))" and
    cl: "\<forall>n y. n \<in> set (row_labels (v_values r)) \<and> y \<in> set [''2020'', ''2030''] \<longrightarrow>
          cell (v_values r) n y = default_cell (v_default ex_var)
            (cell_op (float_op ex_env Add) (cell (v_values ex_var) n y)
               (cell (v_values ex_transport) n y))"
    by blast
  have "''M1 S1'' \<in> set (row_labels (v_values r))"
    unfolding l by (simp add: ex_var_def)
  with cl have "cell (v_values r) ''M1 S1'' ''2020'' = default_cell (v_default ex_var)
            (cell_op (float_op ex_env Add) (cell (v_values ex_var) ''M1 S1'' ''2020'')
               (cell (v_values ex_transport) ''M1 S1'' ''2020''))"
    by simp
  also have "\<dots> = Some 5"
    by (simp add: ex_var_def ex_transport_def ex_env_def ex_op_def default_cell_def cell_op_def
        frame_at_def)
  finally have five: "cell (v_values r) ''M1 S1'' ''2020'' = Some 5" .
  have "set [''2020'', ''2030''] \<noteq> set [''2020'']" by auto
  from t2 [THEN conjunct2, THEN conjunct1, THEN mp, OF this]
  have e: "arithmetic ex_env Add ex_var (Variable ex_transport_2020)
     = Inl (Exception_years [''2020'', ''2030''] [''2020''])" .
  from c u y r ys five e show ?thesis
    unfolding Var_add_def by blast
qed

text \<open>
  C4 as stated fails where the left operand has a default: "Transport" with the default 0
  holds 5 for M1 S1 in 2030, "Energy Supply" in 2030 is missing for M1 S1, the operation
  on the two is missing, and the cell of the sum is 0.
\<close>

theorem scalar_broadcast_with_default_counterexample:
  "cell_of (Var_add ex_env ex_transport0 (Variable ex_scalar)) ''M1 S1'' ''2030'' = Inr (Some 0) \<and>
   cell (v_values ex_transport0) ''M1 S1'' ''2030'' = Some 5 \<and>
   cell (v_values ex_scalar) ''M1 S1'' ''2030'' = None \<and>
   cell_op (float_op ex_env Add) (cell (v_values ex_transport0) ''M1 S1'' ''2030'')
     (cell (v_values ex_scalar) ''M1 S1'' ''2030'') = None"
  by code_simp

theorem vector_scalar_broadcast_witness:
  "consistent ex_var \<and> consistent ex_scalar \<and>
   v_year ex_var = Multiple [''2020'', ''2030''] \<and> v_year ex_scalar = Single ''2030'' \<and>
   unique_labels (v_values ex_var) \<and> unique_labels (v_values ex_scalar) \<and>
   (\<exists>r. Var_add ex_env ex_var (Variable ex_scalar) = Inr r \<and>
        v_year r = Multiple [''2020'', ''2030''] \<and>
        cell (v_values r) ''M1 S2'' ''2020'' = Some 4.5) \<and>
   (\<exists>r. Var_sub ex_env ex_scalar (Variable ex_var) = Inr r \<and>
        v_year r = Multiple [''2020'', ''2030''] \<and>
        cell (v_values r) ''M1 S2'' ''2020'' = Some 0.5)"
proof -
  have c: "consistent ex_var" "consistent ex_scalar"
    by (simp_all add: consistent_def ex_var_def ex_scalar_def)
  have u: "unique_labels (v_values ex_var)" "unique_labels (v_values ex_scalar)"
    by (simp_all add: ex_var_def ex_scalar_def)
  have y: "v_year ex_var = Multiple [''2020'', ''2030'']" "v_year ex_scalar = Single ''2030''"
    by (simp_all add: ex_var_def ex_scalar_def)
  have m: "''2020'' \<in> set [''2020'', ''2030''] \<and>
      ''M1 S2'' \<in> set (row_labels (v_values ex_var)) \<union> set (row_labels (v_values ex_scalar))"
    by (simp add: ex_var_def)
  note t1 = vector_scalar_broadcast [OF c(1) c(2) y(1) y(2) u(1) u(2), of ex_env Add]
  note t2 = vector_scalar_broadcast [OF c(1) c(2) y(1) y(2) u(1) u(2), of ex_env Sub]
  from t1 m obtain ra where
    ra: "arithmetic ex_env Add ex_var (Variable ex_scalar) = Inr ra"
      "v_year ra = Multiple [''2020'', ''2030'']" and
    ca: "cell (v_values ra) ''M1 S2'' ''2020'' = default_cell (v_default ex_var)
           (cell_op (float_op ex_env Add) (cell (v_values ex_var) ''M1 S2'' ''2020'')
              (cell (v_values ex_scalar) ''M1 S2'' ''2020''))"
    by blast
  from t2 m obtain rb where
    rb: "arithmetic ex_env Sub ex_scalar (Variable ex_var) = Inr rb"
      "v_year rb = Multiple [''2020'', ''2030'']" and
    cb: "cell (v_values rb) ''M1 S2'' ''2020'' = default_cell (v_default ex_scalar)
           (cell_op (float_op ex_env Sub) (cell (v_values ex_scalar) ''M1 S2'' ''2020'')
              (cell (v_values ex_var) ''M1 S2'' ''2020''))"
    by blast
  have "cell (v_values ra) ''M1 S2'' ''2020'' = Some 4.5"
    unfolding ca
    by (simp add: ex_var_def ex_scalar_def ex_env_def ex_op_def default_cell_def cell_op_def
        frame_at_def series_at_def)
  moreover have "cell (v_values rb) ''M1 S2'' ''2020'' = Some 0.5"
    unfolding cb
    by (simp add: ex_var_def ex_scalar_def ex_env_def ex_op_def default_cell_def cell_op_def
        frame_at_def series_at_def)
  ultimately show ?thesis
    using c u y ra rb unfolding Var_add_def Var_sub_def by blast
qed

text \<open>
  C5 as stated fails where \<^verbatim>\<open>self\<close> has a default: M1 S2 is a scenario of
  "Energy Supply" only, and its row in the sum with "Transport" (default 0) holds 0.
\<close>

theorem one_sided_scenario_filled_counterexample:
  "cell_of (Var_add ex_env ex_transport0 (Variable ex_var)) ''M1 S2'' ''2020'' = Inr (Some 0) \<and>
   ''M1 S2'' \<notin> set (row_labels (v_values ex_transport0)) \<and>
   ''M1 S2'' \<in> set (row_labels (v_values ex_var))"
  by code_simp

theorem one_sided_scenario_row_witness:
  "consistent ex_transport \<and> consistent ex_scalar \<and>
   unique_labels (v_values ex_transport) \<and> unique_labels (v_values ex_scalar) \<and>
   v_year ex_transport = Multiple [''2030'', ''2020''] \<and>
   v_year ex_scalar = Single ''2030'' \<and>
   ''M1 S2'' \<notin> set (row_labels (v_values ex_transport)) \<and>
   ''M1 S2'' \<in> set (row_labels (v_values ex_scalar)) \<and>
   v_default ex_transport = None \<and>
   (\<exists>r. Var_mul ex_env ex_transport (Variable ex_scalar) = Inr r \<and>
        ''M1 S2'' \<in> set (row_labels (v_values r)) \<and>
        has_column (v_values r) ''2020'' \<and> cell (v_values r) ''M1 S2'' ''2020'' = None)"
proof -
  have c: "consistent ex_transport" "consistent ex_scalar"
    by (simp_all add: consistent_def ex_transport_def ex_scalar_def)
  have u: "unique_labels (v_values ex_transport)" "unique_labels (v_values ex_scalar)"
    by (simp_all add: ex_transport_def ex_scalar_def)
  have y: "v_year ex_transport = Multiple [''2030'', ''2020'']"
    "v_year ex_scalar = Single ''2030''"
    by (simp_all add: ex_transport_def ex_scalar_def)
  have s: "\<forall>y1 y2. v_year ex_transport = Multiple y1 \<and> v_year ex_scalar = Multiple y2
      \<longrightarrow> set y1 = set y2"
    unfolding y by simp
  have ne: "\<forall>t. v_year ex_transport = Single t \<longrightarrow> v_year ex_scalar \<noteq> Multiple []"
    "\<forall>t. v_year ex_scalar = Single t \<longrightarrow> v_year ex_transport \<noteq> Multiple []"
    unfolding y by simp_all
  have m: "''M1 S2'' \<notin> set (row_labels (v_values ex_transport))"
    "''M1 S2'' \<in> set (row_labels (v_values ex_scalar))"
    by (simp_all add: ex_transport_def ex_scalar_def)
  then have o: "(''M1 S2'' \<in> set (row_labels (v_values ex_transport)))
      \<noteq> (''M1 S2'' \<in> set (row_labels (v_values ex_scalar)))"
    by simp
  have d: "v_default ex_transport = None" by (simp add: ex_transport_def)
  from one_sided_scenario_row [OF c u s ne o, of ex_env Mul] obtain r where
    r: "arithmetic ex_env Mul ex_transport (Variable ex_scalar) = Inr r"
      "''M1 S2'' \<in> set (row_labels (v_values r))" and
    cl: "\<forall>y. has_column (v_values r) y \<longrightarrow> cell (v_values r) ''M1 S2'' y = v_default ex_transport"
    by blast
  have hc: "has_column (v_values r) ''2020''"
  proof -
    have "check_and_harmonise_inputs ex_transport (Variable ex_scalar)
        = Inr (v_values ex_transport,
               Vals (DataFrame [''2030'', ''2020'']
                       (map (\<lambda>(n, c). (n, \<lambda>y. c)) [(''M1 S1'', None), (''M1 S2'', Some 2.5)])))"
      by (simp add: check_and_harmonise_inputs_def replicate_years_def ex_transport_def
          ex_scalar_def)
    from arithmetic_Variable [OF this, of ex_env Mul] r(1)
    show ?thesis
      by (simp add: has_column_apply_default ex_transport_def set_union_labels)
  qed
  with cl d have "cell (v_values r) ''M1 S2'' ''2020'' = None" by simp
  with c u y m d r hc show ?thesis unfolding Var_mul_def by blast
qed

text \<open>
  The combination that C5 leaves out: "Transport" over no year at all has the row M1 S1;
  in its sum with the scalar "Energy Supply" of 2030 the scenario M1 S2, which only the
  scalar has, is no row of the result.
\<close>

lemma no_years_drop_scalar_rows:
  "labels_of (Var_add ex_env ex_transport_no_years (Variable ex_scalar)) = Inr [''M1 S1''] \<and>
   row_labels (v_values ex_scalar) = [''M1 S1'', ''M1 S2'']"
  by code_simp

text \<open>
  C6 as stated fails where the default is set: for M1 S1 the service has no value in 2025
  and the dataset has none in 2030, and with the default 0 both cells of the constructed
  \<^verbatim>\<open>Var\<close> hold 0.
\<close>

theorem year_columns_filled_counterexample:
  "cell_of (Var_init ex_env ex_data ex_scenarios ex_vetted_scenarios (Some ''Energy Supply'')
       (Some (Many [''2020'', ''2030'', ''2025''])) None (Some 0)) ''M1 S1'' ''2025'' = Inr (Some 0) \<and>
   interp_cell ex_env ex_data ''Energy Supply'' ''2025'' ''M1 S1'' = None \<and>
   cell_of (Var_init ex_env ex_data ex_scenarios ex_vetted_scenarios (Some ''Energy Supply'')
       (Some (Many [''2020'', ''2030'', ''2025''])) None (Some 0)) ''M1 S1'' ''2030'' = Inr (Some 0) \<and>
   dataset_cells ex_data ''Energy Supply'' ''M1 S1'' ''2030'' = [None]"
  by code_simp

theorem Var_init_year_columns_witness:
  "(\<exists>v. Var_init ex_env ex_data ex_scenarios ex_vetted_scenarios (Some ''Energy Supply'')
         (Some (Many [''2030'', ''2025''])) None None = Inr v \<and>
       v_year v = Multiple [''2030'', ''2025''] \<and>
       cell (v_values v) ''M1 S2'' ''2030'' = Some 2.5 \<and>
       dataset_cells ex_data ''Energy Supply'' ''M1 S2'' ''2030'' = [Some 2.5] \<and>
       cell (v_values v) ''M1 S2'' ''2025'' = Some 2.25 \<and>
       interp_cell ex_env ex_data ''Energy Supply'' ''2025'' ''M1 S2'' = Some 2.25) \<and>
   set [''2020''] \<subseteq> set (YEARS ex_env) \<and>
   Var_init (ex_env\<lparr>py_float := Map.empty, get_interp := (\<lambda>d v f. Map.empty)\<rparr>)
       ex_data ex_scenarios ex_vetted_scenarios (Some ''Energy Supply'')
       (Some (Many [''2020''])) None None
     = Var_init ex_env ex_data ex_scenarios ex_vetted_scenarios (Some ''Energy Supply'')
       (Some (Many [''2020''])) None None"
proof -
  note t = Var_init_year_columns [of ex_env ex_data ex_scenarios ex_vetted_scenarios
      "''Energy Supply''" _ None]
  have "cell_of (Var_init ex_env ex_data ex_scenarios ex_vetted_scenarios (Some ''Energy Supply'')
         (Some (Many [''2030'', ''2025''])) None None) ''M1 S2'' ''2030'' = Inr (Some 2.5)"
    by code_simp
  from cell_of_Inr [OF this] obtain v where
    v: "Var_init ex_env ex_data ex_scenarios ex_vetted_scenarios (Some ''Energy Supply'')
         (Some (Many [''2030'', ''2025''])) None None = Inr v" by blast
  note f = t [of "[''2030'', ''2025'']", THEN conjunct1, rule_format, OF v]
  have
    y: "v_year v = Multiple [''2030'', ''2025'']" and
    vv: "v_values v = apply_default None (DataFrame [''2030'', ''2025'']
            (map (\<lambda>r. (row_Name r,
                       \<lambda>y. if y \<in> set [''2030'', ''2025'']
                           then if y \<in> set (YEARS ex_env) then row_cells r y
                                else interp_cell ex_env ex_data ''Energy Supply'' y (row_Name r)
                           else None))
               (filter (\<lambda>r. row_Variable r = ''Energy Supply'') (data_rows ex_data))))"
    by (rule conjunct1 [OF f], rule conjunct2 [OF f])
  have c1: "cell (v_values v) ''M1 S2'' ''2030'' = Some 2.5"
    unfolding vv by (simp add: apply_default_def frame_at_def ex_data_def ex_env_def)
  have c2: "cell (v_values v) ''M1 S2'' ''2025'' = Some 2.25"
    unfolding vv
    by (simp add: apply_default_def frame_at_def ex_data_def ex_env_def interp_cell_def)
  have d: "dataset_cells ex_data ''Energy Supply'' ''M1 S2'' ''2030'' = [Some 2.5]"
    by (simp add: dataset_cells_def ex_data_def)
  have i: "interp_cell ex_env ex_data ''Energy Supply'' ''2025'' ''M1 S2'' = Some 2.25"
    by (simp add: interp_cell_def ex_env_def)
  have s: "set [''2020''] \<subseteq> set (YEARS ex_env)" by (simp add: ex_env_def)
  from t [of "[''2020'']", THEN conjunct2, THEN mp, OF s] have "Var_init (ex_env\<lparr>py_float := Map.empty, get_interp := (\<lambda>d v f. Map.empty)\<rparr>)
       ex_data ex_scenarios ex_vetted_scenarios (Some ''Energy Supply'')
       (Some (Many [''2020''])) None None
     = Var_init ex_env ex_data ex_scenarios ex_vetted_scenarios (Some ''Energy Supply'')
       (Some (Many [''2020''])) None None"
    by blast
  with v y c1 c2 d i s show ?thesis by blast
qed

end
